theory Spec2Isabelle
  imports Main
begin

section \<open>ScratchNet: a feed-forward network trained by back-propagation\<close>

text \<open>
  The development embeds \<^verbatim>\<open>src/network.cpp\<close> (class \<^verbatim>\<open>Network\<close>) and the data
  declared in \<^verbatim>\<open>neuron.hpp\<close>.

  The element type \<^verbatim>\<open>double\<close> is the type variable \<open>'a\<close>. Only the operations the
  source applies to it are required (\<open>0\<close>, \<open>+\<close>, \<open>-\<close>, \<open>*\<close>), and no algebraic law
  about them is used anywhere: every equation below is the expression tree the source
  evaluates, so it reads the same for IEEE doubles as for the integers on which the
  examples are evaluated.

  A member function mutates the object in place and may throw in the middle. Its model
  returns an \<open>outcome\<close>: the object after a normal return, or the exception together
  with the object as it was left when the exception was thrown.
\<close>

subsection \<open>Exceptions and loops\<close>

datatype error = OutOfRange | DimensionMismatch

datatype 's outcome = Returns 's | Throws error 's

text \<open>Sequencing of two member calls: the second runs only when the first returned.\<close>

definition then_do :: "'s outcome \<Rightarrow> ('s \<Rightarrow> 's outcome) \<Rightarrow> 's outcome" where
  "then_do r f = (case r of Returns s \<Rightarrow> f s | Throws e s \<Rightarrow> Throws e s)"

text \<open>
  Evaluation of a fallible expression while the object is in state \<open>s\<close>: when the
  expression throws, the object stays as it is.
\<close>

definition attempt :: "error + 'x \<Rightarrow> 's \<Rightarrow> ('x \<Rightarrow> 's outcome) \<Rightarrow> 's outcome" where
  "attempt r s f = (case r of Inl e \<Rightarrow> Throws e s | Inr x \<Rightarrow> f x)"

text \<open>
  A counted \<^verbatim>\<open>for\<close> loop: the body runs for each index of the list in turn, and the
  first exception ends the loop. \<^verbatim>\<open>for (int i=0; i<n; ++i)\<close> is \<open>for_loop [0..<n]\<close>.
  The bounds in the source are container sizes that no loop body changes.
\<close>

fun for_loop :: "nat list \<Rightarrow> (nat \<Rightarrow> 's \<Rightarrow> 's outcome) \<Rightarrow> 's \<Rightarrow> 's outcome" where
  "for_loop [] body s = Returns s"
| "for_loop (i # rest) body s =
     (case body i s of
        Returns s' \<Rightarrow> for_loop rest body s'
      | Throws e s' \<Rightarrow> Throws e s')"

text \<open>\<^verbatim>\<open>std::vector::at\<close> and \<^verbatim>\<open>std::vector::back\<close>. Calling \<^verbatim>\<open>back()\<close> on an empty
  vector is undefined in C++; the model makes it a failure.\<close>

definition at :: "'x list \<Rightarrow> nat \<Rightarrow> error + 'x" where
  "at xs i = (if i < length xs then Inr (xs ! i) else Inl OutOfRange)"

definition back_of :: "'x list \<Rightarrow> error + 'x" where
  "back_of xs = (if xs = [] then Inl OutOfRange else Inr (last xs))"

subsection \<open>Neuron and Layer\<close>

text \<open>The four data members of \<^verbatim>\<open>class Neuron\<close> (neuron.hpp).\<close>

record 'a neuron =
  m_input :: 'a
  m_activation :: 'a
  m_derivative :: 'a
  m_bias :: 'a

text \<open>
  Modelled from the spec: class \<^verbatim>\<open>Layer\<close> (its header and implementation are not
  part of the sources). Section 4.2: a fixed-size ordered collection of neurons built
  with a given size, with bulk getters over its neurons, \<^verbatim>\<open>getBiasAt\<close>,
  \<^verbatim>\<open>setBiasAt\<close>, \<^verbatim>\<open>setInputAt\<close>, and an out-of-range error for an index outside
  \<open>[0, size)\<close>. The neuron that a new layer is filled with is the parameter \<open>n0\<close>.
  A negative size is outside the model (it is read as 0); no claim is stated for one.
\<close>

type_synonym 'a layer = "'a neuron list"

definition Layer :: "'a neuron \<Rightarrow> int \<Rightarrow> 'a layer" where
  "Layer n0 sz = replicate (nat sz) n0"

definition getSize :: "'a layer \<Rightarrow> nat" where
  "getSize L = length L"

definition getInputs :: "'a layer \<Rightarrow> 'a list" where
  "getInputs L = map m_input L"

definition getActivations :: "'a layer \<Rightarrow> 'a list" where
  "getActivations L = map m_activation L"

definition getDerivatives :: "'a layer \<Rightarrow> 'a list" where
  "getDerivatives L = map m_derivative L"

definition getBiasAt :: "'a layer \<Rightarrow> nat \<Rightarrow> error + 'a" where
  "getBiasAt L idx = (if idx < length L then Inr (m_bias (L ! idx)) else Inl OutOfRange)"

text \<open>Modelled from the spec: \<^verbatim>\<open>Neuron::setBias\<close> (section 4.1) overwrites the bias.\<close>

definition setBiasAt :: "'a layer \<Rightarrow> nat \<Rightarrow> 'a \<Rightarrow> error + 'a layer" where
  "setBiasAt L idx b =
     (if idx < length L then Inr (L[idx := (L ! idx)\<lparr>m_bias := b\<rparr>]) else Inl OutOfRange)"

text \<open>
  \<^verbatim>\<open>Neuron::setInput\<close>, \<^verbatim>\<open>activate\<close> and \<^verbatim>\<open>derive\<close> are declared in neuron.hpp but
  their bodies are not part of the sources, and neither is \<^verbatim>\<open>Layer::setInputAt\<close>. What
  happens to one neuron when the layer sets its input (the store, and whichever
  recomputation of activation and derivative follows it) is therefore the parameter
  \<open>ns\<close> of the model: \<open>ns v n\<close> is neuron \<open>n\<close> after its input has been set to \<open>v\<close>.
  Everything proved below holds for every such function.
\<close>

type_synonym 'a neuron_setter = "'a \<Rightarrow> 'a neuron \<Rightarrow> 'a neuron"

definition setInputAt :: "'a neuron_setter \<Rightarrow> 'a layer \<Rightarrow> nat \<Rightarrow> 'a \<Rightarrow> error + 'a layer" where
  "setInputAt ns L idx v =
     (if idx < length L then Inr (L[idx := ns v (L ! idx)]) else Inl OutOfRange)"

subsection \<open>The linear-algebra collaborator\<close>

text \<open>
  Modelled from the spec: \<^verbatim>\<open>linalg::Matrix\<close>, its product with a vector, its
  transpose, its element access and \<^verbatim>\<open>linalg::hadamardProduct\<close>
  (\<^verbatim>\<open>math/linearalgebra.h\<close> is not part of the sources). Section 6: an \<open>R \<times> C\<close> matrix,
  multiplied by a vector of length \<open>C\<close> into a vector of length \<open>R\<close>; a transpose from
  \<open>R \<times> C\<close> to \<open>C \<times> R\<close>; the elementwise product of two vectors of equal length.
  Section 7: a product with a vector of incompatible length fails with a
  dimension-mismatch error; the model lets the elementwise product of two vectors of
  different lengths fail in the same way, a case that no call in \<^verbatim>\<open>network.cpp\<close>
  reaches on a well-formed network. The matrix is stored by rows.
\<close>

record 'a matrix =
  m_rows :: nat
  m_cols :: nat
  m_data :: "'a list list"

definition dot :: "'a::{zero,plus,times} list \<Rightarrow> 'a list \<Rightarrow> 'a" where
  "dot xs ys = foldl (+) 0 (map2 (*) xs ys)"

definition mat_vec :: "'a::{zero,plus,times} matrix \<Rightarrow> 'a list \<Rightarrow> error + 'a list" where
  "mat_vec M v =
     (if length v = m_cols M then Inr (map (\<lambda>row. dot row v) (m_data M))
      else Inl DimensionMismatch)"

definition transpose_mat :: "'a matrix \<Rightarrow> 'a matrix" where
  "transpose_mat M =
     \<lparr>m_rows = m_cols M, m_cols = m_rows M,
      m_data = map (\<lambda>i. map (\<lambda>row. row ! i) (m_data M)) [0..<m_cols M]\<rparr>"

definition hadamardProduct :: "'a::times list \<Rightarrow> 'a list \<Rightarrow> error + 'a list" where
  "hadamardProduct xs ys =
     (if length xs = length ys then Inr (map2 (*) xs ys) else Inl DimensionMismatch)"

text \<open>\<^verbatim>\<open>M(j, i)\<close> read and written; an index outside the matrix is a failure.\<close>

definition mat_get :: "'a matrix \<Rightarrow> nat \<Rightarrow> nat \<Rightarrow> error + 'a" where
  "mat_get M j i =
     (if j < length (m_data M) \<and> i < length (m_data M ! j) then Inr (m_data M ! j ! i)
      else Inl OutOfRange)"

definition mat_set :: "'a matrix \<Rightarrow> nat \<Rightarrow> nat \<Rightarrow> 'a \<Rightarrow> error + 'a matrix" where
  "mat_set M j i w =
     (if j < length (m_data M) \<and> i < length (m_data M ! j)
      then Inr (M\<lparr>m_data := (m_data M)[j := (m_data M ! j)[i := w]]\<rparr>)
      else Inl OutOfRange)"

text \<open>
  Modelled from the spec: \<^verbatim>\<open>numerical::randomDouble\<close> and the matrix constructor with
  random filling (section 6). The generator is a sequence \<open>rnd\<close> of values and a count
  of the calls made so far; call number \<open>k\<close> returns \<open>rnd k\<close>. The constructor draws one
  value per entry, row by row.
\<close>

definition Matrix_random :: "(nat \<Rightarrow> 'a) \<Rightarrow> nat \<Rightarrow> int \<Rightarrow> int \<Rightarrow> 'a matrix" where
  "Matrix_random rnd k r c =
     \<lparr>m_rows = nat r, m_cols = nat c,
      m_data = map (\<lambda>j. map (\<lambda>i. rnd (k + j * nat c + i)) [0..<nat c]) [0..<nat r]\<rparr>"

subsection \<open>Network\<close>

text \<open>
  The data members that \<^verbatim>\<open>network.cpp\<close> uses. \<^verbatim>\<open>m_input\<close> of the network is named
  \<open>m_netInput\<close> here, since the neuron has a member of the same name.
  \<^verbatim>\<open>m_numLayers\<close> is a natural number: the source only compares \<^verbatim>\<open>m_numLayers-1\<close>
  with a counter that starts at 0 and \<^verbatim>\<open>m_numLayers-2\<close> with \<^verbatim>\<open>i>0\<close>, and for these
  the subtraction that stops at 0 gives the same iterations as the signed one.
\<close>

record 'a network =
  m_layerSizes :: "int list"
  m_numLayers :: nat
  m_layers :: "'a layer list"
  m_weightMatrices :: "'a matrix list"
  m_netInput :: "'a list"
  m_targetOutput :: "'a list"
  m_errors :: "'a list list"
  m_LEARNINGRATE :: 'a

subsubsection \<open>Network::Network\<close>

text \<open>
  The constructor runs with the random generator, so its state is the object under
  construction and the number of calls of \<^verbatim>\<open>randomDouble\<close> made so far. The value of
  \<^verbatim>\<open>m_LEARNINGRATE\<close> is set in the absent header: it is the parameter \<open>lr\<close>.
\<close>

definition ctor_layers_body ::
  "'a neuron \<Rightarrow> int list \<Rightarrow> nat \<Rightarrow> 'a network \<times> nat \<Rightarrow> ('a network \<times> nat) outcome" where
  "ctor_layers_body n0 layerSizes layerNum = (\<lambda>(s, k).
     attempt (at layerSizes layerNum) (s, k) (\<lambda>sz.
       Returns (s\<lparr>m_layers := m_layers s @ [Layer n0 sz]\<rparr>, k)))"

definition ctor_bias_body ::
  "(nat \<Rightarrow> 'a) \<Rightarrow> nat \<Rightarrow> nat \<Rightarrow> 'a network \<times> nat \<Rightarrow> ('a network \<times> nat) outcome" where
  "ctor_bias_body rnd layerNum neuronIndex = (\<lambda>(s, k).
     attempt (at (m_layers s) (layerNum + 1)) (s, k) (\<lambda>L.
     attempt (setBiasAt L neuronIndex (rnd k)) (s, k) (\<lambda>L'.
       Returns (s\<lparr>m_layers := (m_layers s)[layerNum + 1 := L']\<rparr>, Suc k))))"

definition ctor_weights_body ::
  "(nat \<Rightarrow> 'a) \<Rightarrow> int list \<Rightarrow> nat \<Rightarrow> 'a network \<times> nat \<Rightarrow> ('a network \<times> nat) outcome" where
  "ctor_weights_body rnd layerSizes layerNum = (\<lambda>(s, k).
     attempt (at layerSizes (layerNum + 1)) (s, k) (\<lambda>r.
     attempt (at layerSizes layerNum) (s, k) (\<lambda>c.
       let s1 = s\<lparr>m_weightMatrices := m_weightMatrices s @ [Matrix_random rnd k r c]\<rparr>;
           k1 = k + nat r * nat c
       in attempt (at (m_layers s1) (layerNum + 1)) (s1, k1) (\<lambda>L.
            for_loop [0..<getSize L] (ctor_bias_body rnd layerNum) (s1, k1)))))"

definition Network ::
  "'a neuron \<Rightarrow> 'a \<Rightarrow> (nat \<Rightarrow> 'a) \<Rightarrow> nat \<Rightarrow> int list \<Rightarrow> ('a network \<times> nat) outcome" where
  "Network n0 lr rnd k layerSizes =
     (let net0 = \<lparr>m_layerSizes = layerSizes, m_numLayers = length layerSizes,
                  m_layers = [], m_weightMatrices = [], m_netInput = [],
                  m_targetOutput = [], m_errors = [], m_LEARNINGRATE = lr\<rparr>
      in then_do (for_loop [0..<m_numLayers net0] (ctor_layers_body n0 layerSizes) (net0, k))
           (\<lambda>(s, k'). for_loop [0..<m_numLayers s - 1] (ctor_weights_body rnd layerSizes) (s, k')))"

subsubsection \<open>Network::setInput\<close>

definition setInput_body :: "'a neuron_setter \<Rightarrow> 'a list \<Rightarrow> nat \<Rightarrow> 'a network \<Rightarrow> 'a network outcome" where
  "setInput_body ns input neuronIndex s =
     attempt (at (m_layers s) 0) s (\<lambda>L.
     attempt (at input neuronIndex) s (\<lambda>v.
     attempt (setInputAt ns L neuronIndex v) s (\<lambda>L'.
       Returns (s\<lparr>m_layers := (m_layers s)[0 := L']\<rparr>))))"

definition setInput :: "'a neuron_setter \<Rightarrow> 'a network \<Rightarrow> 'a list \<Rightarrow> 'a network outcome" where
  "setInput ns net input =
     for_loop [0..<length input] (setInput_body ns input) (net\<lparr>m_netInput := input\<rparr>)"

subsubsection \<open>Network::feedForward\<close>

definition feedForward_set_body ::
  "'a neuron_setter \<Rightarrow> nat \<Rightarrow> 'a list \<Rightarrow> nat \<Rightarrow> 'a network \<Rightarrow> 'a network outcome" where
  "feedForward_set_body ns layerNum nextLayerInputs neuronNum s =
     attempt (at (m_layers s) (layerNum + 1)) s (\<lambda>L.
     attempt (at nextLayerInputs neuronNum) s (\<lambda>v.
     attempt (setInputAt ns L neuronNum v) s (\<lambda>L'.
       Returns (s\<lparr>m_layers := (m_layers s)[layerNum + 1 := L']\<rparr>))))"

definition feedForward_body ::
  "'a::{zero,plus,times} neuron_setter \<Rightarrow> nat \<Rightarrow> 'a network \<Rightarrow> 'a network outcome" where
  "feedForward_body ns layerNum s =
     attempt (at (m_layers s) layerNum) s (\<lambda>L.
       let currentLayerOutputs = getActivations L
       in attempt (at (m_weightMatrices s) layerNum) s (\<lambda>W.
          attempt (mat_vec W currentLayerOutputs) s (\<lambda>nextLayerInputs.
            for_loop [0..<length nextLayerInputs]
              (feedForward_set_body ns layerNum nextLayerInputs) s)))"

text \<open>
  The loop bound \<^verbatim>\<open>m_layers.size()-1\<close> is unsigned: without any layer it wraps
  around, the body runs and \<^verbatim>\<open>m_layers.at(0)\<close> throws.
\<close>

definition feedForward :: "'a::{zero,plus,times} neuron_setter \<Rightarrow> 'a network \<Rightarrow> 'a network outcome" where
  "feedForward ns net =
     (if m_layers net = [] then Throws OutOfRange net
      else for_loop [0..<length (m_layers net) - 1] (feedForward_body ns) net)"

subsubsection \<open>Network::backPropagate\<close>

fun gradCost_loop :: "nat list \<Rightarrow> 'a::minus list \<Rightarrow> 'a list \<Rightarrow> 'a list \<Rightarrow> error + 'a list" where
  "gradCost_loop [] output target gradCost = Inr gradCost"
| "gradCost_loop (i # rest) output target gradCost =
     (if i < length output \<and> i < length target
      then gradCost_loop rest output target (gradCost @ [output ! i - target ! i])
      else Inl OutOfRange)"

definition backPropagate_body :: "nat \<Rightarrow> 'a::{zero,plus,minus,times} network \<Rightarrow> 'a network outcome" where
  "backPropagate_body i s =
     attempt (at (m_weightMatrices s) i) s (\<lambda>W.
       let weights_T = transpose_mat W
       in attempt (at (m_layers s) i) s (\<lambda>L.
            let thisLayerDerivatives = getDerivatives L
            in attempt (back_of (m_errors s)) s (\<lambda>err.
               attempt (mat_vec weights_T err) s (\<lambda>backpropagatedError.
               attempt (hadamardProduct backpropagatedError thisLayerDerivatives) s (\<lambda>thisLayerError.
                 Returns (s\<lparr>m_errors := m_errors s @ [thisLayerError]\<rparr>))))))"

definition backPropagate :: "'a::{zero,plus,minus,times} network \<Rightarrow> 'a network outcome" where
  "backPropagate net =
     attempt (back_of (m_layers net)) net (\<lambda>Lout.
       let output = getActivations Lout;
           outputDerivatives = getDerivatives Lout
       in attempt (gradCost_loop [0..<getSize Lout] output (m_targetOutput net) []) net (\<lambda>gradCost.
          attempt (hadamardProduct gradCost outputDerivatives) net (\<lambda>outputError.
            for_loop (rev [1..<m_numLayers net - 1]) backPropagate_body
              (net\<lparr>m_errors := m_errors net @ [outputError]\<rparr>))))"

subsubsection \<open>Network::update\<close>

text \<open>
  \<^verbatim>\<open>m_errors.at(m_errors.size()-1-l)\<close>: the index is unsigned, so for
  \<open>l \<ge> m_errors.size()\<close> it wraps around to a value beyond the vector and \<^verbatim>\<open>at\<close>
  throws.
\<close>

definition errors_at :: "'a network \<Rightarrow> nat \<Rightarrow> error + 'a list" where
  "errors_at s l =
     (if l < length (m_errors s) then Inr (m_errors s ! (length (m_errors s) - 1 - l))
      else Inl OutOfRange)"

definition update_weight_body :: "nat \<Rightarrow> nat \<Rightarrow> nat \<Rightarrow> 'a::{minus,times} network \<Rightarrow> 'a network outcome" where
  "update_weight_body l j i s =
     attempt (at (m_weightMatrices s) l) s (\<lambda>currentWeightMatrix.
     attempt (mat_get currentWeightMatrix j i) s (\<lambda>w.
     attempt (at (m_layers s) l) s (\<lambda>L.
     attempt (at (getActivations L) i) s (\<lambda>a.
     attempt (errors_at s l) s (\<lambda>err.
     attempt (at err j) s (\<lambda>e.
       let newWeight = w - m_LEARNINGRATE s * a * e
       in attempt (mat_set currentWeightMatrix j i newWeight) s (\<lambda>W'.
            Returns (s\<lparr>m_weightMatrices := (m_weightMatrices s)[l := W']\<rparr>))))))))"

definition update_bias :: "nat \<Rightarrow> nat \<Rightarrow> 'a::{minus,times} network \<Rightarrow> 'a network outcome" where
  "update_bias l j s =
     attempt (at (m_layers s) (l + 1)) s (\<lambda>L.
     attempt (getBiasAt L j) s (\<lambda>b.
     attempt (errors_at s l) s (\<lambda>err.
     attempt (at err j) s (\<lambda>e.
       let newBias = b - m_LEARNINGRATE s * e
       in attempt (setBiasAt L j newBias) s (\<lambda>L'.
            Returns (s\<lparr>m_layers := (m_layers s)[l + 1 := L']\<rparr>))))))"

definition update_neuron_body :: "nat \<Rightarrow> nat \<Rightarrow> 'a::{minus,times} network \<Rightarrow> 'a network outcome" where
  "update_neuron_body l j s =
     attempt (at (m_layers s) l) s (\<lambda>L.
       then_do (for_loop [0..<getSize L] (update_weight_body l j) s) (update_bias l j))"

definition update_body :: "nat \<Rightarrow> 'a::{minus,times} network \<Rightarrow> 'a network outcome" where
  "update_body l s =
     attempt (at (m_weightMatrices s) l) s (\<lambda>currentWeightMatrix.
     attempt (errors_at s l) s (\<lambda>currentError.
     attempt (at (m_layers s) (l + 1)) s (\<lambda>L.
       for_loop [0..<getSize L] (update_neuron_body l) s)))"

definition update :: "'a::{minus,times} network \<Rightarrow> 'a network outcome" where
  "update net = for_loop [0..<length (m_weightMatrices net)] update_body net"

subsubsection \<open>Network::train\<close>




subsection \<open>Notions used in the statements\<close>

text \<open>The object after a call, whether the call returned or threw.\<close>

fun final :: "'s outcome \<Rightarrow> 's" where
  "final (Returns s) = s"
| "final (Throws e s) = s"

text \<open>
  What a call of \<^verbatim>\<open>update\<close> on \<open>net\<close> leaves as it was in the resulting object \<open>s\<close>:
  the input, activation and derivative of every neuron, the whole input layer, the
  shape of every weight matrix, and every member other than the layers and the
  weight matrices.
\<close>

definition unchanged_by_update :: "'a network \<Rightarrow> 'a network \<Rightarrow> bool" where
  "unchanged_by_update net s \<longleftrightarrow>
     map getInputs (m_layers s) = map getInputs (m_layers net) \<and>
     map getActivations (m_layers s) = map getActivations (m_layers net) \<and>
     map getDerivatives (m_layers s) = map getDerivatives (m_layers net) \<and>
     take 1 (m_layers s) = take 1 (m_layers net) \<and>
     map m_rows (m_weightMatrices s) = map m_rows (m_weightMatrices net) \<and>
     map m_cols (m_weightMatrices s) = map m_cols (m_weightMatrices net) \<and>
     m_errors s = m_errors net \<and>
     m_targetOutput s = m_targetOutput net \<and>
     m_netInput s = m_netInput net \<and>
     m_LEARNINGRATE s = m_LEARNINGRATE net \<and>
     m_numLayers s = m_numLayers net \<and>
     m_layerSizes s = m_layerSizes net"

subsection \<open>The object built by the constructor\<close>

text \<open>
  The number of calls of \<^verbatim>\<open>randomDouble\<close> made before the constructor's second loop
  starts iteration \<open>t\<close>, when \<open>k\<close> calls were made before the constructor: every earlier
  iteration \<open>u\<close> draws the entries of one matrix and one bias per neuron of layer \<open>u + 1\<close>.
\<close>

fun rng_before :: "nat \<Rightarrow> int list \<Rightarrow> nat \<Rightarrow> nat" where
  "rng_before k layerSizes 0 = k"
| "rng_before k layerSizes (Suc t) =
     rng_before k layerSizes t
       + nat (layerSizes ! (t + 1)) * nat (layerSizes ! t) + nat (layerSizes ! (t + 1))"

text \<open>
  Layer \<open>l\<close> of the constructed network: the input layer is as \<^verbatim>\<open>Layer\<close> built it,
  and neuron \<open>j\<close> of a later layer carries the value of the call that follows the
  draws for the matrix into that layer.
\<close>

definition ctor_layer :: "'a neuron \<Rightarrow> (nat \<Rightarrow> 'a) \<Rightarrow> nat \<Rightarrow> int list \<Rightarrow> nat \<Rightarrow> 'a layer" where
  "ctor_layer n0 rnd k layerSizes l =
     (if l = 0 then Layer n0 (layerSizes ! 0)
      else map (\<lambda>j. n0\<lparr>m_bias := rnd (rng_before k layerSizes (l - 1)
                  + nat (layerSizes ! l) * nat (layerSizes ! (l - 1)) + j)\<rparr>)
             [0..<nat (layerSizes ! l)])"

definition ctor_matrix :: "(nat \<Rightarrow> 'a) \<Rightarrow> nat \<Rightarrow> int list \<Rightarrow> nat \<Rightarrow> 'a matrix" where
  "ctor_matrix rnd k layerSizes l =
     Matrix_random rnd (rng_before k layerSizes l) (layerSizes ! (l + 1)) (layerSizes ! l)"

text \<open>
  The object and the call count after \<open>t\<close> iterations of the constructor's second loop.
\<close>

definition ctor_state ::
  "'a neuron \<Rightarrow> 'a \<Rightarrow> (nat \<Rightarrow> 'a) \<Rightarrow> nat \<Rightarrow> int list \<Rightarrow> nat \<Rightarrow> 'a network \<times> nat" where
  "ctor_state n0 lr rnd k layerSizes t =
     (\<lparr>m_layerSizes = layerSizes, m_numLayers = length layerSizes,
       m_layers = map (\<lambda>l. if l \<le> t then ctor_layer n0 rnd k layerSizes l
                             else Layer n0 (layerSizes ! l)) [0..<length layerSizes],
       m_weightMatrices = map (ctor_matrix rnd k layerSizes) [0..<t],
       m_netInput = [], m_targetOutput = [], m_errors = [], m_LEARNINGRATE = lr\<rparr>,
      rng_before k layerSizes t)"

text \<open>
  The number of the \<^verbatim>\<open>randomDouble\<close> call whose value becomes the bias of neuron \<open>j\<close>
  of layer \<open>l \<ge> 1\<close>: it follows the draws for the matrix into layer \<open>l\<close>.
\<close>

definition bias_draw :: "nat \<Rightarrow> int list \<Rightarrow> nat \<Rightarrow> nat \<Rightarrow> nat" where
  "bias_draw k layerSizes l j =
     rng_before k layerSizes (l - 1) + nat (layerSizes ! l) * nat (layerSizes ! (l - 1)) + j"

text \<open>
  A matrix with \<open>r\<close> rows and \<open>c\<close> columns, in its recorded dimensions and in its data.
\<close>

definition matrix_shape :: "'a matrix \<Rightarrow> nat \<Rightarrow> nat \<Rightarrow> bool" where
  "matrix_shape M r c \<longleftrightarrow>
     m_rows M = r \<and> m_cols M = c \<and> length (m_data M) = r \<and>
     list_all (\<lambda>row. length row = c) (m_data M)"

text \<open>
  The examples are evaluated on integers. \<open>neuron0\<close> is the neuron a new layer is
  filled with there.
\<close>

subsection \<open>Well-formed networks and the errors of one backward pass\<close>

text \<open>
  A network as the data model describes it: at least two layers, \<^verbatim>\<open>m_numLayers\<close> of
  them, one weight matrix per pair of adjacent layers, and matrix \<open>l\<close> with as many rows
  as layer \<open>l + 1\<close> has neurons and as many columns as layer \<open>l\<close> has.
\<close>

definition well_formed :: "'a network \<Rightarrow> bool" where
  "well_formed net \<longleftrightarrow>
     2 \<le> length (m_layers net) \<and>
     m_numLayers net = length (m_layers net) \<and>
     length (m_weightMatrices net) = length (m_layers net) - 1 \<and>
     list_all (\<lambda>l. matrix_shape (m_weightMatrices net ! l)
                  (getSize (m_layers net ! (l + 1))) (getSize (m_layers net ! l)))
       [0..<length (m_layers net) - 1]"

text \<open>
  The error vectors of one backward pass, written as the claims state them. The error
  of the output layer is the elementwise product of \<open>activation - target\<close> with the
  derivatives of the output layer; the error of a hidden layer \<open>l\<close> is the elementwise
  product of \<open>transpose(W\<^sub>l) \<cdot> next_error\<close> with the derivatives of layer \<open>l\<close>.
  \<open>errors_after net m\<close> is the list after the output error and \<open>m\<close> hidden layers,
  from layer \<open>numLayers - 2\<close> downwards; \<open>layer_error net l\<close> is the vector of layer
  \<open>l \<ge> 1\<close> in the complete list.
\<close>

definition output_error :: "'a::{minus,times} network \<Rightarrow> 'a list" where
  "output_error net =
     map2 (*) (map2 (-) (getActivations (last (m_layers net))) (m_targetOutput net))
       (getDerivatives (last (m_layers net)))"

definition hidden_error :: "'a::{zero,plus,times} network \<Rightarrow> nat \<Rightarrow> 'a list \<Rightarrow> 'a list" where
  "hidden_error net l next_error =
     map2 (*) (map (\<lambda>row. dot row next_error) (m_data (transpose_mat (m_weightMatrices net ! l))))
       (getDerivatives (m_layers net ! l))"

fun errors_after :: "'a::{zero,plus,minus,times} network \<Rightarrow> nat \<Rightarrow> 'a list list" where
  "errors_after net 0 = [output_error net]"
| "errors_after net (Suc m) =
     errors_after net m @ [hidden_error net (m_numLayers net - 2 - m) (last (errors_after net m))]"

definition produced_errors :: "'a::{zero,plus,minus,times} network \<Rightarrow> 'a list list" where
  "produced_errors net = errors_after net (m_numLayers net - 2)"

definition layer_error :: "'a::{zero,plus,minus,times} network \<Rightarrow> nat \<Rightarrow> 'a list" where
  "layer_error net l = produced_errors net ! (m_numLayers net - 1 - l)"

subsection \<open>The result of update\<close>

text \<open>
  The delta rule in closed form. A row of a weight matrix, the data of a matrix and the
  biases of a layer after \<^verbatim>\<open>update\<close>, from the learning rate, the activations of the
  source layer and the error vector of the destination layer.
\<close>

definition updated_row :: "'a::{minus,times} \<Rightarrow> 'a list \<Rightarrow> 'a \<Rightarrow> 'a list \<Rightarrow> 'a list" where
  "updated_row lr activations e row = map (\<lambda>i. row ! i - lr * activations ! i * e) [0..<length row]"

definition updated_data ::
  "'a::{minus,times} \<Rightarrow> 'a list \<Rightarrow> 'a list \<Rightarrow> 'a list list \<Rightarrow> 'a list list" where
  "updated_data lr activations err rows =
     map (\<lambda>j. updated_row lr activations (err ! j) (rows ! j)) [0..<length rows]"

definition updated_layer :: "'a::{minus,times} \<Rightarrow> 'a list \<Rightarrow> 'a layer \<Rightarrow> 'a layer" where
  "updated_layer lr err L = map (\<lambda>j. (L ! j)\<lparr>m_bias := m_bias (L ! j) - lr * err ! j\<rparr>) [0..<length L]"

text \<open>
  The error vector that \<^verbatim>\<open>update\<close> reads for weight matrix \<open>l\<close>:
  \<^verbatim>\<open>m_errors.at(m_errors.size()-1-l)\<close>.
\<close>

definition error_for :: "'a network \<Rightarrow> nat \<Rightarrow> 'a list" where
  "error_for net l = m_errors net ! (length (m_errors net) - 1 - l)"

definition updated_matrix :: "'a::{minus,times} network \<Rightarrow> nat \<Rightarrow> 'a matrix" where
  "updated_matrix net l =
     (m_weightMatrices net ! l)\<lparr>m_data :=
        updated_data (m_LEARNINGRATE net) (getActivations (m_layers net ! l)) (error_for net l)
          (m_data (m_weightMatrices net ! l))\<rparr>"

text \<open>
  The network after \<^verbatim>\<open>update\<close>: every weight matrix and every layer but the input
  layer replaced.
\<close>

definition update_result :: "'a::{minus,times} network \<Rightarrow> 'a network" where
  "update_result net =
     net\<lparr>m_weightMatrices := map (updated_matrix net) [0..<length (m_weightMatrices net)],
         m_layers := hd (m_layers net) #
           map (\<lambda>l. updated_layer (m_LEARNINGRATE net) (error_for net l) (m_layers net ! (l + 1)))
             [0..<length (m_weightMatrices net)]\<rparr>"

text \<open>
  The error list holds a vector for every weight matrix, of the size of the layer the
  matrix leads to, at the index \<^verbatim>\<open>update\<close> reads.
\<close>

definition errors_fit :: "'a network \<Rightarrow> bool" where
  "errors_fit net \<longleftrightarrow>
     length (m_weightMatrices net) \<le> length (m_errors net) \<and>
     list_all (\<lambda>l. length (error_for net l) = getSize (m_layers net ! (l + 1)))
       [0..<length (m_weightMatrices net)]"

subsection \<open>The result of feedForward\<close>

text \<open>
  Layer \<open>l + 1\<close> after one iteration of \<^verbatim>\<open>feedForward\<close>: neuron \<open>j\<close> has had its input
  set to row \<open>j\<close> of the weight matrix times the activations of layer \<open>l\<close>.
\<close>

definition fed_layer :: "'a::{zero,plus,times} neuron_setter \<Rightarrow> 'a matrix \<Rightarrow> 'a layer \<Rightarrow> 'a layer \<Rightarrow> 'a layer" where
  "fed_layer ns W Lcur Lnext =
     map (\<lambda>j. ns (dot (m_data W ! j) (getActivations Lcur)) (Lnext ! j)) [0..<length Lnext]"

text \<open>
  What \<^verbatim>\<open>feedForward\<close> leaves as it was: the weight matrices, the size of every
  layer, the input layer, and every member other than the layers.
\<close>

definition same_frame :: "'a network \<Rightarrow> 'a network \<Rightarrow> bool" where
  "same_frame net s \<longleftrightarrow>
     m_weightMatrices s = m_weightMatrices net \<and>
     map length (m_layers s) = map length (m_layers net) \<and>
     take 1 (m_layers s) = take 1 (m_layers net) \<and>
     m_numLayers s = m_numLayers net \<and>
     m_layerSizes s = m_layerSizes net \<and>
     m_netInput s = m_netInput net \<and>
     m_targetOutput s = m_targetOutput net \<and>
     m_errors s = m_errors net \<and>
     m_LEARNINGRATE s = m_LEARNINGRATE net"

text \<open>
  The example network after one training step on the sample \<open>([1, 2], [90])\<close>.
\<close>

subsection \<open>Concrete objects for the examples\<close>

definition neuron0 :: "int neuron" where
  "neuron0 = \<lparr>m_input = 0, m_activation = 0, m_derivative = 0, m_bias = 0\<rparr>"

text \<open>
  In the examples, setting the input of a neuron stores it, makes it the activation
  and sets the derivative to 1; the target is stored as it is.
\<close>

definition ns_demo :: "int neuron_setter" where
  "ns_demo v n = n\<lparr>m_input := v, m_activation := v, m_derivative := 1\<rparr>"


text \<open>
  A network with layers of 2, 2 and 1 neurons.
\<close>

definition demo_net :: "int network" where
  "demo_net =
     \<lparr>m_layerSizes = [2, 2, 1], m_numLayers = 3,
      m_layers =
        [[\<lparr>m_input = 1, m_activation = 1, m_derivative = 1, m_bias = 0\<rparr>,
          \<lparr>m_input = 2, m_activation = 2, m_derivative = 1, m_bias = 0\<rparr>],
         [\<lparr>m_input = 5, m_activation = 5, m_derivative = 2, m_bias = 7\<rparr>,
          \<lparr>m_input = 11, m_activation = 11, m_derivative = 3, m_bias = 8\<rparr>],
         [\<lparr>m_input = 91, m_activation = 91, m_derivative = 2, m_bias = 9\<rparr>]],
      m_weightMatrices =
        [\<lparr>m_rows = 2, m_cols = 2, m_data = [[1, 2], [3, 4]]\<rparr>,
         \<lparr>m_rows = 1, m_cols = 2, m_data = [[5, 6]]\<rparr>],
      m_netInput = [1, 2], m_targetOutput = [90], m_errors = [],
      m_LEARNINGRATE = 1\<rparr>"


text \<open>
  The example network after a backward pass.
\<close>

definition demo_back :: "int network" where
  "demo_back = demo_net\<lparr>m_errors := [[2], [20, 36]]\<rparr>"

text \<open>
  A network of two layers, of 2 neurons and 1 neuron, with a vector left in its error
  list.
\<close>

definition demo_two :: "int network" where
  "demo_two =
     \<lparr>m_layerSizes = [2, 1], m_numLayers = 2,
      m_layers =
        [[\<lparr>m_input = 3, m_activation = 3, m_derivative = 1, m_bias = 0\<rparr>,
          \<lparr>m_input = 4, m_activation = 4, m_derivative = 1, m_bias = 0\<rparr>],
         [\<lparr>m_input = 0, m_activation = 0, m_derivative = 0, m_bias = 6\<rparr>]],
      m_weightMatrices = [\<lparr>m_rows = 1, m_cols = 2, m_data = [[1, 2]]\<rparr>],
      m_netInput = [3, 4], m_targetOutput = [10], m_errors = [[5]],
      m_LEARNINGRATE = 1\<rparr>"


text \<open>
  A second way of setting the input of a neuron, which adds the stored bias before it
  writes the activation, and the two-layer example with another bias in its output
  neuron.
\<close>

definition ns_bias :: "int neuron_setter" where
  "ns_bias v n = n\<lparr>m_input := v, m_activation := v + m_bias n, m_derivative := 1\<rparr>"

definition demo_two_rebiased :: "int network" where
  "demo_two_rebiased =
     demo_two\<lparr>m_layers :=
        [[\<lparr>m_input = 3, m_activation = 3, m_derivative = 1, m_bias = 0\<rparr>,
          \<lparr>m_input = 4, m_activation = 4, m_derivative = 1, m_bias = 0\<rparr>],
         [\<lparr>m_input = 0, m_activation = 0, m_derivative = 0, m_bias = 60\<rparr>]]\<rparr>"

section \<open>Auxiliary facts\<close>

subsection \<open>Sequencing and loops\<close>

lemma attempt_simps [simp]:
  "attempt (Inr x) s f = f x"
  "attempt (Inl e) s f = Throws e s"
  by (simp_all add: attempt_def)

lemma then_do_simps [simp]:
  "then_do (Returns s) f = f s"
  "then_do (Throws e s) f = Throws e s"
  by (simp_all add: then_do_def)

lemma for_loop_append:
  "for_loop (xs @ ys) body s = then_do (for_loop xs body s) (for_loop ys body)"
  by (induction xs arbitrary: s) (auto split: outcome.splits)

lemma for_loop_exact:
  assumes "\<And>k. k < length xs \<Longrightarrow> body (xs ! k) (F k) = Returns (F (Suc k))"
  shows "for_loop xs body (F 0) = Returns (F (length xs))"
  using assms
proof (induction xs arbitrary: F)
  case Nil
  then show ?case by simp
next
  case (Cons i rest)
  have step: "body i (F 0) = Returns (F (Suc 0))"
    using Cons.prems [of 0] by simp
  have "for_loop rest body ((F \<circ> Suc) 0) = Returns ((F \<circ> Suc) (length rest))"
  proof (rule Cons.IH)
    fix k assume "k < length rest"
    then show "body (rest ! k) ((F \<circ> Suc) k) = Returns ((F \<circ> Suc) (Suc k))"
      using Cons.prems [of "Suc k"] by simp
  qed
  with step show ?case by simp
qed

lemma for_loop_upt_exact:
  assumes "\<And>k. k < n \<Longrightarrow> body k (F k) = Returns (F (Suc k))"
  shows "for_loop [0..<n] body (F 0) = Returns (F n)"
  using for_loop_exact [of "[0..<n]" body F] assms by simp

lemma for_loop_final:
  assumes "P s" and "\<And>i s. i \<in> set xs \<Longrightarrow> P s \<Longrightarrow> P (final (body i s))"
  shows "P (final (for_loop xs body s))"
  using assms
proof (induction xs arbitrary: s)
  case Nil
  then show ?case by simp
next
  case (Cons i rest)
  have "P (final (body i s))" using Cons.prems by simp
  then show ?case
    using Cons.IH Cons.prems(2) by (cases "body i s") auto
qed


subsection \<open>What update leaves unchanged\<close>

lemma final_attempt:
  "final (attempt r s f) = (case r of Inl e \<Rightarrow> s | Inr x \<Rightarrow> final (f x))"
  by (cases r) simp_all

lemma final_then_do:
  "final (then_do r f) = (case r of Returns s \<Rightarrow> final (f s) | Throws e s \<Rightarrow> s)"
  by (cases r) simp_all

lemma final_update_weight_body:
  "final (update_weight_body l j i s) = s \<or>
   (\<exists>W'. l < length (m_weightMatrices s) \<and>
      final (update_weight_body l j i s) = s\<lparr>m_weightMatrices := (m_weightMatrices s)[l := W']\<rparr> \<and>
      m_rows W' = m_rows (m_weightMatrices s ! l) \<and> m_cols W' = m_cols (m_weightMatrices s ! l))"
  by (auto simp: update_weight_body_def final_attempt at_def mat_set_def Let_def split: sum.splits)

lemma final_update_bias:
  "final (update_bias l j s) = s \<or>
   (\<exists>b. l + 1 < length (m_layers s) \<and> j < length (m_layers s ! (l + 1)) \<and>
      final (update_bias l j s) =
        s\<lparr>m_layers := (m_layers s)[l + 1 := (m_layers s ! (l + 1))[j := (m_layers s ! (l + 1) ! j)\<lparr>m_bias := b\<rparr>]]\<rparr>)"
  by (auto simp: update_bias_def final_attempt at_def setBiasAt_def Let_def split: sum.splits)

lemma unchanged_weight_body:
  assumes "unchanged_by_update net s"
  shows "unchanged_by_update net (final (update_weight_body l j i s))"
proof -
  from final_update_weight_body [of l j i s] show ?thesis
  proof
    assume "final (update_weight_body l j i s) = s"
    with assms show ?thesis by simp
  next
    assume "\<exists>W'. l < length (m_weightMatrices s) \<and>
      final (update_weight_body l j i s) = s\<lparr>m_weightMatrices := (m_weightMatrices s)[l := W']\<rparr> \<and>
      m_rows W' = m_rows (m_weightMatrices s ! l) \<and> m_cols W' = m_cols (m_weightMatrices s ! l)"
    then obtain W' where W': "l < length (m_weightMatrices s)"
      "final (update_weight_body l j i s) = s\<lparr>m_weightMatrices := (m_weightMatrices s)[l := W']\<rparr>"
      "m_rows W' = m_rows (m_weightMatrices s ! l)" "m_cols W' = m_cols (m_weightMatrices s ! l)"
      by blast
    have "map m_rows ((m_weightMatrices s)[l := W']) = map m_rows (m_weightMatrices s)"
      "map m_cols ((m_weightMatrices s)[l := W']) = map m_cols (m_weightMatrices s)"
      using W'(1,3,4) by (simp_all add: map_update list_update_same_conv)
    with assms W'(2) show ?thesis
      by (simp add: unchanged_by_update_def)
  qed
qed

lemma set_bias_signals:
  fixes L :: "'a layer"
  assumes "j < length L"
  shows "getInputs (L[j := (L ! j)\<lparr>m_bias := b\<rparr>]) = getInputs L"
    and "getActivations (L[j := (L ! j)\<lparr>m_bias := b\<rparr>]) = getActivations L"
    and "getDerivatives (L[j := (L ! j)\<lparr>m_bias := b\<rparr>]) = getDerivatives L"
  using assms
  by (simp_all add: getInputs_def getActivations_def getDerivatives_def map_update
      list_update_same_conv)

lemma unchanged_bias:
  assumes "unchanged_by_update net s"
  shows "unchanged_by_update net (final (update_bias l j s))"
proof -
  from final_update_bias [of l j s] show ?thesis
  proof
    assume "final (update_bias l j s) = s"
    with assms show ?thesis by simp
  next
    assume "\<exists>b. l + 1 < length (m_layers s) \<and> j < length (m_layers s ! (l + 1)) \<and>
      final (update_bias l j s) =
        s\<lparr>m_layers := (m_layers s)[l + 1 := (m_layers s ! (l + 1))[j := (m_layers s ! (l + 1) ! j)\<lparr>m_bias := b\<rparr>]]\<rparr>"
    then obtain b where b: "l + 1 < length (m_layers s)" "j < length (m_layers s ! (l + 1))"
      "final (update_bias l j s) =
        s\<lparr>m_layers := (m_layers s)[l + 1 := (m_layers s ! (l + 1))[j := (m_layers s ! (l + 1) ! j)\<lparr>m_bias := b\<rparr>]]\<rparr>"
      by blast
    define L' where "L' = (m_layers s ! (l + 1))[j := (m_layers s ! (l + 1) ! j)\<lparr>m_bias := b\<rparr>]"
    have sig: "getInputs L' = getInputs (m_layers s ! (l + 1))"
      "getActivations L' = getActivations (m_layers s ! (l + 1))"
      "getDerivatives L' = getDerivatives (m_layers s ! (l + 1))"
      unfolding L'_def using set_bias_signals [OF b(2)] by simp_all
    have maps: "map getInputs ((m_layers s)[l + 1 := L']) = map getInputs (m_layers s)"
      "map getActivations ((m_layers s)[l + 1 := L']) = map getActivations (m_layers s)"
      "map getDerivatives ((m_layers s)[l + 1 := L']) = map getDerivatives (m_layers s)"
      using b(1) sig by (simp_all add: map_update list_update_same_conv)
    have first: "take 1 ((m_layers s)[l + 1 := L']) = take 1 (m_layers s)"
      by simp
    from assms b(3) maps first show ?thesis
      unfolding L'_def [symmetric] by (simp add: unchanged_by_update_def)
  qed
qed

lemma unchanged_neuron_body:
  assumes "unchanged_by_update net s"
  shows "unchanged_by_update net (final (update_neuron_body l j s))"
proof (cases "l < length (m_layers s)")
  case False
  with assms show ?thesis
    by (simp add: update_neuron_body_def at_def)
next
  case True
  define r where "r = for_loop [0..<getSize (m_layers s ! l)] (update_weight_body l j) s"
  have loop: "unchanged_by_update net (final r)"
    unfolding r_def
    by (rule for_loop_final [where P = "unchanged_by_update net"])
       (simp_all add: assms unchanged_weight_body)
  have "final (update_neuron_body l j s) =
          (case r of Returns s1 \<Rightarrow> final (update_bias l j s1) | Throws e s1 \<Rightarrow> s1)"
    using True by (simp add: update_neuron_body_def at_def final_then_do r_def)
  with loop show ?thesis
    by (cases r) (simp_all add: unchanged_bias)
qed

lemma unchanged_body:
  assumes "unchanged_by_update net s"
  shows "unchanged_by_update net (final (update_body l s))"
proof -
  have loop: "unchanged_by_update net (final (for_loop xs (update_neuron_body l) s))" for xs
    by (rule for_loop_final [where P = "unchanged_by_update net"])
       (simp_all add: assms unchanged_neuron_body)
  show ?thesis
    using assms loop
    by (simp add: update_body_def final_attempt at_def errors_at_def)
qed

lemma update_unchanged: "unchanged_by_update net (final (update net))"
  unfolding update_def
proof (rule for_loop_final [where P = "unchanged_by_update net"])
  show "unchanged_by_update net net"
    by (simp add: unchanged_by_update_def)
qed (rule unchanged_body)

subsection \<open>The constructor\<close>

lemma prefix_nth: "j < length L \<Longrightarrow> (map f [0..<j] @ drop j L) ! j = L ! j"
  by (simp add: nth_append)

lemma prefix_update:
  "j < length L \<Longrightarrow> y = f j \<Longrightarrow>
     (map f [0..<j] @ drop j L)[j := y] = map f [0..<Suc j] @ drop (Suc j) L"
  by (simp add: list_update_append Cons_nth_drop_Suc [symmetric])

lemma ctor_bias_loop:
  assumes t: "Suc t < length (m_layers s)" and L: "m_layers s ! Suc t = L"
  shows "for_loop [0..<length L] (ctor_bias_body rnd t) (s, k) =
           Returns (s\<lparr>m_layers := (m_layers s)[Suc t :=
                       map (\<lambda>j. (L ! j)\<lparr>m_bias := rnd (k + j)\<rparr>) [0..<length L]]\<rparr>,
                    k + length L)"
proof -
  define new where "new = (\<lambda>j. (L ! j)\<lparr>m_bias := rnd (k + j)\<rparr>)"
  define F where "F = (\<lambda>j. (s\<lparr>m_layers := (m_layers s)[Suc t := map new [0..<j] @ drop j L]\<rparr>, k + j))"
  have step: "ctor_bias_body rnd t j (F j) = Returns (F (Suc j))" if "j < length L" for j
    using that t
    by (simp add: ctor_bias_body_def F_def at_def setBiasAt_def prefix_nth prefix_update
        new_def del: upt_Suc)
  have "for_loop [0..<length L] (ctor_bias_body rnd t) (F 0) = Returns (F (length L))"
    by (rule for_loop_upt_exact) (rule step)
  moreover have "F 0 = (s, k)"
    using L list_update_id [of "m_layers s" "Suc t"] by (simp add: F_def)
  ultimately show ?thesis
    by (simp add: F_def new_def)
qed

lemma ctor_layers_loop:
  "for_loop [0..<length layerSizes] (ctor_layers_body n0 layerSizes) (net0\<lparr>m_layers := []\<rparr>, k) =
     Returns (net0\<lparr>m_layers := map (Layer n0) layerSizes\<rparr>, k)"
proof -
  define F where "F = (\<lambda>m. (net0\<lparr>m_layers := map (Layer n0) (take m layerSizes)\<rparr>, k))"
  have step: "ctor_layers_body n0 layerSizes m (F m) = Returns (F (Suc m))"
    if "m < length layerSizes" for m
    using that by (simp add: ctor_layers_body_def F_def at_def take_Suc_conv_app_nth)
  have "for_loop [0..<length layerSizes] (ctor_layers_body n0 layerSizes) (F 0)
          = Returns (F (length layerSizes))"
    by (rule for_loop_upt_exact) (rule step)
  then show ?thesis by (simp add: F_def)
qed

lemma ctor_weights_step:
  assumes "Suc t < length layerSizes"
  shows "ctor_weights_body rnd layerSizes t (ctor_state n0 lr rnd k layerSizes t) =
           Returns (ctor_state n0 lr rnd k layerSizes (Suc t))"
proof -
  let ?r = "layerSizes ! Suc t" and ?c = "layerSizes ! t"
  let ?kt = "rng_before k layerSizes t"
  let ?k1 = "?kt + nat ?r * nat ?c"
  let ?L = "Layer n0 ?r"
  let ?g = "\<lambda>t l. if l \<le> t then ctor_layer n0 rnd k layerSizes l else Layer n0 (layerSizes ! l)"
  define s where "s = fst (ctor_state n0 lr rnd k layerSizes t)"
  have st: "ctor_state n0 lr rnd k layerSizes t = (s, ?kt)"
    by (simp add: s_def ctor_state_def)
  have ms: "m_layers s = map (?g t) [0..<length layerSizes]"
    "m_weightMatrices s = map (ctor_matrix rnd k layerSizes) [0..<t]"
    by (simp_all add: s_def ctor_state_def)
  define s1 where "s1 = s\<lparr>m_weightMatrices := m_weightMatrices s @ [Matrix_random rnd ?kt ?r ?c]\<rparr>"
  have len: "Suc t < length (m_layers s1)"
    using assms by (simp add: s1_def ms)
  have nth: "m_layers s1 ! Suc t = ?L"
    using assms by (simp add: s1_def ms)
  have lenL: "length ?L = nat ?r"
    by (simp add: Layer_def)
  have loop: "for_loop [0..<length ?L] (ctor_bias_body rnd t) (s1, ?k1) =
      Returns (s1\<lparr>m_layers := (m_layers s1)[Suc t :=
                  map (\<lambda>j. (?L ! j)\<lparr>m_bias := rnd (?k1 + j)\<rparr>) [0..<length ?L]]\<rparr>, ?k1 + length ?L)"
    by (rule ctor_bias_loop [OF len nth])
  have newL: "map (\<lambda>j. (?L ! j)\<lparr>m_bias := rnd (?k1 + j)\<rparr>) [0..<length ?L]
                = ctor_layer n0 rnd k layerSizes (Suc t)"
    by (simp add: ctor_layer_def Layer_def)
  have layers': "(m_layers s1)[Suc t := ctor_layer n0 rnd k layerSizes (Suc t)]
       = map (?g (Suc t)) [0..<length layerSizes]"
    by (rule nth_equalityI) (auto simp: s1_def ms nth_list_update le_Suc_eq)
  have "ctor_weights_body rnd layerSizes t (s, ?kt) =
          for_loop [0..<length (m_layers s1 ! Suc t)] (ctor_bias_body rnd t) (s1, ?k1)"
    using assms len
    by (simp add: ctor_weights_body_def at_def Let_def getSize_def s1_def)
  also have "\<dots> = Returns (s1\<lparr>m_layers := map (?g (Suc t)) [0..<length layerSizes]\<rparr>, ?k1 + nat ?r)"
    using loop unfolding nth newL unfolding layers' lenL .
  also have "\<dots> = Returns (ctor_state n0 lr rnd k layerSizes (Suc t))"
    by (simp add: ctor_state_def s1_def s_def ctor_matrix_def)
  finally show ?thesis by (simp add: st)
qed

lemma Network_closed_form:
  "Network n0 lr rnd k layerSizes =
     Returns (ctor_state n0 lr rnd k layerSizes (length layerSizes - 1))"
proof -
  define net0 :: "'a network" where "net0 = \<lparr>m_layerSizes = layerSizes, m_numLayers = length layerSizes,
                  m_layers = [], m_weightMatrices = [], m_netInput = [],
                  m_targetOutput = [], m_errors = [], m_LEARNINGRATE = lr\<rparr>"
  define net1 where "net1 = net0\<lparr>m_layers := map (Layer n0) layerSizes\<rparr>"
  have first: "for_loop [0..<length layerSizes] (ctor_layers_body n0 layerSizes) (net0, k) =
     Returns (net1, k)"
    using ctor_layers_loop [of layerSizes n0 net0 k] by (simp add: net0_def net1_def)
  have ls: "map (Layer n0) layerSizes =
      map (\<lambda>l. if l \<le> 0 then ctor_layer n0 rnd k layerSizes l else Layer n0 (layerSizes ! l))
        [0..<length layerSizes]"
  proof (rule nth_equalityI)
    fix i assume "i < length (map (Layer n0) layerSizes)"
    then show "map (Layer n0) layerSizes ! i =
        map (\<lambda>l. if l \<le> 0 then ctor_layer n0 rnd k layerSizes l else Layer n0 (layerSizes ! l))
          [0..<length layerSizes] ! i"
      by (cases i) (simp_all add: ctor_layer_def)
  qed simp
  have start: "(net1, k) = ctor_state n0 lr rnd k layerSizes 0"
    unfolding net1_def net0_def ctor_state_def using ls by simp
  have nl: "m_numLayers net1 = length layerSizes"
    by (simp add: net1_def net0_def)
  have second: "for_loop [0..<length layerSizes - 1] (ctor_weights_body rnd layerSizes)
                  (ctor_state n0 lr rnd k layerSizes 0)
                = Returns (ctor_state n0 lr rnd k layerSizes (length layerSizes - 1))"
    by (rule for_loop_upt_exact) (simp add: ctor_weights_step)
  have "Network n0 lr rnd k layerSizes =
          then_do (for_loop [0..<length layerSizes] (ctor_layers_body n0 layerSizes) (net0, k))
           (\<lambda>(s, k'). for_loop [0..<m_numLayers s - 1] (ctor_weights_body rnd layerSizes) (s, k'))"
    by (simp add: Network_def Let_def net0_def)
  also have "\<dots> = for_loop [0..<length layerSizes - 1] (ctor_weights_body rnd layerSizes) (net1, k)"
    unfolding first by (simp add: nl)
  finally show ?thesis
    unfolding start second .
qed

subsection \<open>The constructor: calls of the random generator\<close>

lemma rng_before_mono: "t \<le> t' \<Longrightarrow> rng_before k layerSizes t \<le> rng_before k layerSizes t'"
  by (induction t') (auto simp: le_Suc_eq)

lemma rng_before_ge: "k \<le> rng_before k layerSizes t"
  using rng_before_mono [of 0 t k layerSizes] by simp

lemma bias_draw_bounds:
  assumes "1 \<le> l" "l \<le> t" "j < nat (layerSizes ! l)"
  shows "k \<le> bias_draw k layerSizes l j" and "bias_draw k layerSizes l j < rng_before k layerSizes t"
proof -
  obtain u where u: "l = Suc u" using assms(1) by (cases l) auto
  show "k \<le> bias_draw k layerSizes l j"
    using rng_before_ge [of k layerSizes "l - 1"] by (simp add: bias_draw_def)
  have "bias_draw k layerSizes l j < rng_before k layerSizes l"
    using assms(3) by (simp add: bias_draw_def u)
  also have "\<dots> \<le> rng_before k layerSizes t"
    by (rule rng_before_mono) (rule assms(2))
  finally show "bias_draw k layerSizes l j < rng_before k layerSizes t" .
qed

lemma Matrix_random_shape: "matrix_shape (Matrix_random rnd k r c) (nat r) (nat c)"
  by (simp add: matrix_shape_def Matrix_random_def list_all_iff)

subsection \<open>setInput\<close>

lemma for_loop_throws:
  assumes "for_loop xs body s = Returns s'" and "body i s' = Throws e s''"
  shows "for_loop (xs @ i # ys) body s = Throws e s''"
  using assms by (simp add: for_loop_append)

lemma setInput_prefix:
  assumes layers: "m_layers net = L0 # Ls" and m: "m \<le> length input" "m \<le> length L0"
  shows "for_loop [0..<m] (setInput_body ns input) (net\<lparr>m_netInput := input\<rparr>) =
           Returns (net\<lparr>m_netInput := input,
                       m_layers := (map (\<lambda>i. ns (input ! i) (L0 ! i)) [0..<m] @ drop m L0) # Ls\<rparr>)"
proof -
  define F where "F = (\<lambda>m. net\<lparr>m_netInput := input,
      m_layers := (map (\<lambda>i. ns (input ! i) (L0 ! i)) [0..<m] @ drop m L0) # Ls\<rparr>)"
  have step: "setInput_body ns input i (F i) = Returns (F (Suc i))" if "i < m" for i
    using that m
    by (simp add: setInput_body_def F_def at_def setInputAt_def prefix_nth prefix_update
        del: upt_Suc)
  have "for_loop [0..<m] (setInput_body ns input) (F 0) = Returns (F m)"
    by (rule for_loop_upt_exact) (rule step)
  moreover have "F 0 = net\<lparr>m_netInput := input\<rparr>"
    using layers by (simp add: F_def)
  ultimately show ?thesis by (simp add: F_def)
qed

subsection \<open>backPropagate\<close>

lemma well_formed_shape:
  assumes "well_formed net" and "l < length (m_weightMatrices net)"
  shows "matrix_shape (m_weightMatrices net ! l) (getSize (m_layers net ! (l + 1)))
           (getSize (m_layers net ! l))"
  using assms by (simp add: well_formed_def list_all_iff)

lemma well_formed_lengths:
  assumes "well_formed net"
  shows "2 \<le> length (m_layers net)" and "m_numLayers net = length (m_layers net)"
    and "length (m_weightMatrices net) = length (m_layers net) - 1"
    and "m_layers net \<noteq> []"
  using assms by (auto simp: well_formed_def)

lemma gradCost_loop_closed:
  assumes "\<forall>i \<in> set xs. i < length output \<and> i < length target"
  shows "gradCost_loop xs output target acc = Inr (acc @ map (\<lambda>i. output ! i - target ! i) xs)"
  using assms by (induction xs arbitrary: acc) simp_all

lemma map2_minus_upt:
  assumes "length xs = n" "length ys = n"
  shows "map (\<lambda>i. f (xs ! i) (ys ! i)) [0..<n] = map2 f xs ys"
  using assms by (intro nth_equalityI) simp_all

lemma gradCost_full:
  assumes "length target = length output"
  shows "gradCost_loop [0..<length output] output target [] = Inr (map2 (-) output target)"
  using gradCost_loop_closed [of "[0..<length output]" "output" target "[]"] assms
    map2_minus_upt [of "output" "length output" target "(-)"]
  by simp

lemma length_errors_after: "length (errors_after net m) = Suc m"
  by (induction m) simp_all

lemma errors_after_nonempty: "errors_after net m \<noteq> []"
  using length_errors_after [of net m] by auto

lemma errors_after_nth:
  "k \<le> m \<Longrightarrow> errors_after net m ! k = last (errors_after net k)"
proof (induction m)
  case 0
  then show ?case by simp
next
  case (Suc m)
  show ?case
  proof (cases "k = Suc m")
    case True
    then show ?thesis
      by (simp add: nth_append length_errors_after)
  next
    case False
    with Suc.prems have "k \<le> m" by simp
    with Suc.IH show ?thesis
      by (simp add: nth_append length_errors_after)
  qed
qed

lemma length_transpose_data: "length (m_data (transpose_mat M)) = m_cols M"
  by (simp add: transpose_mat_def)

lemma length_hidden_error:
  assumes "matrix_shape (m_weightMatrices net ! l) r (length (m_layers net ! l))"
  shows "length (hidden_error net l e) = length (m_layers net ! l)"
  using assms
  by (simp add: hidden_error_def length_transpose_data matrix_shape_def getDerivatives_def)

lemma length_last_errors_after:
  assumes wf: "well_formed net" and tgt: "length (m_targetOutput net) = getSize (last (m_layers net))"
    and m: "m \<le> m_numLayers net - 2"
  shows "length (last (errors_after net m)) = getSize (m_layers net ! (m_numLayers net - 1 - m))"
proof (cases m)
  case 0
  have "last (m_layers net) = m_layers net ! (length (m_layers net) - 1)"
    using well_formed_lengths(4) [OF wf] by (simp add: last_conv_nth)
  then show ?thesis
    using 0 tgt well_formed_lengths(2) [OF wf]
    by (simp add: output_error_def getSize_def getActivations_def getDerivatives_def)
next
  case (Suc u)
  let ?l = "m_numLayers net - 2 - u"
  have l: "?l < length (m_weightMatrices net)"
    using m Suc well_formed_lengths [OF wf] by simp
  have "length (hidden_error net ?l (last (errors_after net u))) = length (m_layers net ! ?l)"
    using well_formed_shape [OF wf l] by (intro length_hidden_error) (simp add: getSize_def)
  moreover have "m_numLayers net - 1 - m = ?l"
    using m Suc by simp
  ultimately show ?thesis
    using Suc by (simp add: getSize_def)
qed

lemma backPropagate_step:
  assumes wf: "well_formed net" and tgt: "length (m_targetOutput net) = getSize (last (m_layers net))"
    and k: "k < m_numLayers net - 2"
  shows "backPropagate_body (rev [1..<m_numLayers net - 1] ! k)
           (net\<lparr>m_errors := old @ errors_after net k\<rparr>)
         = Returns (net\<lparr>m_errors := old @ errors_after net (Suc k)\<rparr>)"
proof -
  let ?n = "m_numLayers net"
  define i where "i = ?n - 2 - k"
  define e where "e = last (errors_after net k)"
  define W where "W = m_weightMatrices net ! i"
  have idx: "rev [1..<?n - 1] ! k = i"
    using k by (simp add: rev_nth i_def)
  have i: "i < length (m_weightMatrices net)" "i < length (m_layers net)"
    using k well_formed_lengths [OF wf] by (simp_all add: i_def)
  have shape: "matrix_shape W (getSize (m_layers net ! (i + 1))) (getSize (m_layers net ! i))"
    unfolding W_def by (rule well_formed_shape [OF wf i(1)])
  have "?n - 1 - k = i + 1"
    using k by (simp add: i_def)
  then have len_e: "length e = getSize (m_layers net ! (i + 1))"
    using length_last_errors_after [OF wf tgt, of k] k by (simp add: e_def)
  have mv: "mat_vec (transpose_mat W) e = Inr (map (\<lambda>row. dot row e) (m_data (transpose_mat W)))"
    using shape len_e by (simp add: mat_vec_def transpose_mat_def matrix_shape_def)
  have hp: "hadamardProduct (map (\<lambda>row. dot row e) (m_data (transpose_mat W)))
       (getDerivatives (m_layers net ! i)) = Inr (hidden_error net i e)"
    using shape
    by (simp add: hadamardProduct_def hidden_error_def length_transpose_data matrix_shape_def
        getDerivatives_def getSize_def W_def)
  have bk: "back_of (old @ errors_after net k) = Inr e"
    by (simp add: back_of_def errors_after_nonempty e_def)
  have "backPropagate_body i (net\<lparr>m_errors := old @ errors_after net k\<rparr>) =
          Returns (net\<lparr>m_errors := (old @ errors_after net k) @ [hidden_error net i e]\<rparr>)"
    using i by (simp add: backPropagate_body_def at_def Let_def bk W_def [symmetric] mv hp)
  then show ?thesis
    unfolding idx by (simp add: i_def e_def)
qed

lemma backPropagate_closed_form:
  assumes wf: "well_formed net" and tgt: "length (m_targetOutput net) = getSize (last (m_layers net))"
  shows "backPropagate net = Returns (net\<lparr>m_errors := m_errors net @ produced_errors net\<rparr>)"
proof -
  let ?Lout = "last (m_layers net)"
  define F where "F = (\<lambda>k. net\<lparr>m_errors := m_errors net @ errors_after net k\<rparr>)"
  have gc: "gradCost_loop [0..<getSize ?Lout] (getActivations ?Lout) (m_targetOutput net) [] =
      Inr (map2 (-) (getActivations ?Lout) (m_targetOutput net))"
    using gradCost_full [of "m_targetOutput net" "getActivations ?Lout"] tgt
    by (simp add: getSize_def getActivations_def)
  have hp: "hadamardProduct (map2 (-) (getActivations ?Lout) (m_targetOutput net))
      (getDerivatives ?Lout) = Inr (output_error net)"
    using tgt by (simp add: hadamardProduct_def output_error_def getSize_def
        getActivations_def getDerivatives_def)
  have loop: "for_loop (rev [1..<m_numLayers net - 1]) backPropagate_body (F 0) =
      Returns (F (length (rev [1..<m_numLayers net - 1])))"
  proof (rule for_loop_exact)
    fix k assume "k < length (rev [1..<m_numLayers net - 1])"
    then have "k < m_numLayers net - 2" by simp
    then show "backPropagate_body (rev [1..<m_numLayers net - 1] ! k) (F k) = Returns (F (Suc k))"
      unfolding F_def by (rule backPropagate_step [OF wf tgt])
  qed
  have "backPropagate net =
      for_loop (rev [1..<m_numLayers net - 1]) backPropagate_body (F 0)"
    using well_formed_lengths(4) [OF wf]
    by (simp add: backPropagate_def back_of_def Let_def gc hp F_def)
  with loop show ?thesis
    by (simp add: F_def produced_errors_def numeral_2_eq_2)
qed

lemma hidden_error_ops:
  assumes "matrix_shape W (length e) (length L)" and "W = m_weightMatrices net ! l"
    and "L = m_layers net ! l"
  shows "mat_vec (transpose_mat W) e = Inr (map (\<lambda>row. dot row e) (m_data (transpose_mat W)))"
    and "hadamardProduct (map (\<lambda>row. dot row e) (m_data (transpose_mat W))) (getDerivatives L)
           = Inr (hidden_error net l e)"
  using assms
  by (simp_all add: mat_vec_def transpose_mat_def matrix_shape_def hadamardProduct_def
      hidden_error_def getDerivatives_def)

lemma length_produced_errors:
  "well_formed net \<Longrightarrow> length (produced_errors net) = m_numLayers net - 1"
  using well_formed_lengths(1,2) [of net]
  by (simp add: produced_errors_def length_errors_after)

lemma produced_errors_nth:
  assumes "k \<le> m_numLayers net - 2"
  shows "produced_errors net ! k = last (errors_after net k)"
  using assms by (simp add: produced_errors_def errors_after_nth)

lemma layer_error_length:
  assumes wf: "well_formed net" and tgt: "length (m_targetOutput net) = getSize (last (m_layers net))"
    and l: "1 \<le> l" "l < m_numLayers net"
  shows "length (layer_error net l) = getSize (m_layers net ! l)"
proof -
  let ?k = "m_numLayers net - 1 - l"
  have k: "?k \<le> m_numLayers net - 2" using l by simp
  have "m_numLayers net - 1 - ?k = l" using l by simp
  with length_last_errors_after [OF wf tgt k] produced_errors_nth [OF k]
  show ?thesis by (simp add: layer_error_def)
qed

lemma layer_error_hidden:
  assumes l: "1 \<le> l" "l < m_numLayers net - 1"
  shows "layer_error net l = hidden_error net l (layer_error net (l + 1))"
proof -
  define k where "k = m_numLayers net - 2 - l"
  have k: "Suc k \<le> m_numLayers net - 2" "m_numLayers net - 1 - l = Suc k"
    "m_numLayers net - 1 - (l + 1) = k" "m_numLayers net - 2 - k = l"
    using l by (simp_all add: k_def)
  have "layer_error net l = produced_errors net ! Suc k"
    by (simp only: layer_error_def k(2))
  also have "\<dots> = last (errors_after net (Suc k))"
    by (rule produced_errors_nth [OF k(1)])
  also have "\<dots> = hidden_error net (m_numLayers net - 2 - k) (last (errors_after net k))"
    by simp
  also have "\<dots> = hidden_error net l (last (errors_after net k))"
    by (simp only: k(4))
  also have "last (errors_after net k) = produced_errors net ! k"
    using produced_errors_nth [of k net] k(1) by simp
  also have "\<dots> = layer_error net (l + 1)"
    by (simp only: layer_error_def k(3))
  finally show ?thesis .
qed

lemma output_error_nth:
  assumes "length (m_targetOutput net) = getSize (last (m_layers net))"
    and "i < getSize (last (m_layers net))"
  shows "output_error net ! i =
           (getActivations (last (m_layers net)) ! i - m_targetOutput net ! i)
             * getDerivatives (last (m_layers net)) ! i"
  using assms
  by (simp add: output_error_def getSize_def getActivations_def getDerivatives_def)


lemma well_formed_demo_net: "well_formed demo_net"
  by (simp add: well_formed_def demo_net_def matrix_shape_def getSize_def numeral_2_eq_2)

lemma target_demo_net: "length (m_targetOutput demo_net) = getSize (last (m_layers demo_net))"
  by (simp add: demo_net_def getSize_def)


lemma errors_after_m_errors: "errors_after (net\<lparr>m_errors := x\<rparr>) m = errors_after net m"
  by (induction m) (simp_all add: output_error_def hidden_error_def)




subsection \<open>update\<close>

lemma errors_at_eq:
  "l < length (m_errors s) \<Longrightarrow> errors_at s l = Inr (error_for s l)"
  by (simp add: errors_at_def error_for_def)

lemma weight_loop:
  assumes l: "l < length (m_weightMatrices s)" "l < length (m_layers s)"
    and j: "j < length (m_data (m_weightMatrices s ! l))"
    and row: "length (m_data (m_weightMatrices s ! l) ! j) = length (m_layers s ! l)"
    and err: "l < length (m_errors s)" "j < length (error_for s l)"
  shows "for_loop [0..<getSize (m_layers s ! l)] (update_weight_body l j) s =
           Returns (s\<lparr>m_weightMatrices := (m_weightMatrices s)[l :=
              (m_weightMatrices s ! l)\<lparr>m_data := (m_data (m_weightMatrices s ! l))[j :=
                 updated_row (m_LEARNINGRATE s) (getActivations (m_layers s ! l))
                   (error_for s l ! j) (m_data (m_weightMatrices s ! l) ! j)]\<rparr>]\<rparr>)"
proof -
  define W where "W = m_weightMatrices s ! l"
  define rows where "rows = m_data W"
  define row where "row = rows ! j"
  define A where "A = getActivations (m_layers s ! l)"
  define e where "e = error_for s l ! j"
  define lr where "lr = m_LEARNINGRATE s"
  define f where "f = (\<lambda>i. row ! i - lr * A ! i * e)"
  define F where "F = (\<lambda>i. s\<lparr>m_weightMatrices := (m_weightMatrices s)[l :=
              W\<lparr>m_data := rows[j := map f [0..<i] @ drop i row]\<rparr>]\<rparr>)"
  have n: "getSize (m_layers s ! l) = length row" "length A = length row" "j < length rows"
    using row j by (simp_all add: getSize_def row_def rows_def W_def A_def getActivations_def)
  have step: "update_weight_body l j i (F i) = Returns (F (Suc i))" if "i < length row" for i
  proof -
    have W': "at (m_weightMatrices (F i)) l = Inr (W\<lparr>m_data := rows[j := map f [0..<i] @ drop i row]\<rparr>)"
      using l by (simp add: F_def at_def)
    have get: "mat_get (W\<lparr>m_data := rows[j := map f [0..<i] @ drop i row]\<rparr>) j i = Inr (row ! i)"
      using that n by (simp add: mat_get_def prefix_nth)
    have lay: "at (m_layers (F i)) l = Inr (m_layers s ! l)"
      using l by (simp add: F_def at_def)
    have act: "at (getActivations (m_layers s ! l)) i = Inr (A ! i)"
      using that n by (simp add: at_def A_def)
    have er: "errors_at (F i) l = Inr (error_for s l)"
      using err by (simp add: F_def errors_at_def error_for_def)
    have ej: "at (error_for s l) j = Inr e"
      using err by (simp add: at_def e_def)
    have set: "mat_set (W\<lparr>m_data := rows[j := map f [0..<i] @ drop i row]\<rparr>) j i (f i) =
        Inr (W\<lparr>m_data := rows[j := map f [0..<Suc i] @ drop (Suc i) row]\<rparr>)"
      using that n by (simp add: mat_set_def prefix_update del: upt_Suc)
    have "update_weight_body l j i (F i) =
        Returns ((F i)\<lparr>m_weightMatrices := (m_weightMatrices (F i))[l :=
            W\<lparr>m_data := rows[j := map f [0..<Suc i] @ drop (Suc i) row]\<rparr>]\<rparr>)"
      unfolding update_weight_body_def W' attempt_simps get lay act er ej Let_def
      using set by (simp add: f_def lr_def F_def)
    then show ?thesis
      by (simp add: F_def)
  qed
  have "for_loop [0..<length row] (update_weight_body l j) (F 0) = Returns (F (length row))"
    by (rule for_loop_upt_exact) (rule step)
  moreover have "F 0 = s"
    using l n by (simp add: F_def row_def rows_def W_def)
  moreover have "map f [0..<length row] = updated_row lr A e row"
    by (simp add: updated_row_def f_def)
  ultimately show ?thesis
    unfolding n(1) F_def
    by (simp add: W_def rows_def row_def A_def e_def lr_def)
qed

lemma error_for_cong: "m_errors s = m_errors t \<Longrightarrow> error_for s l = error_for t l"
  by (simp add: error_for_def)

lemma bias_step:
  assumes l: "Suc l < length (m_layers s)" and j: "j < length (m_layers s ! Suc l)"
    and err: "l < length (m_errors s)" "j < length (error_for s l)"
  shows "update_bias l j s =
           Returns (s\<lparr>m_layers := (m_layers s)[Suc l := (m_layers s ! Suc l)[j :=
              (m_layers s ! Suc l ! j)\<lparr>m_bias :=
                 m_bias (m_layers s ! Suc l ! j) - m_LEARNINGRATE s * error_for s l ! j\<rparr>]]\<rparr>)"
  using assms
  by (simp add: update_bias_def at_def getBiasAt_def setBiasAt_def errors_at_eq Let_def)

lemma neuron_loop:
  assumes l: "l < length (m_weightMatrices s)" "Suc l < length (m_layers s)"
    and rows: "length (m_data (m_weightMatrices s ! l)) = length (m_layers s ! Suc l)"
    and cols: "\<forall>j < length (m_data (m_weightMatrices s ! l)).
                 length (m_data (m_weightMatrices s ! l) ! j) = length (m_layers s ! l)"
    and err: "l < length (m_errors s)" "length (error_for s l) = length (m_layers s ! Suc l)"
  shows "for_loop [0..<getSize (m_layers s ! (l + 1))] (update_neuron_body l) s =
           Returns (s\<lparr>m_weightMatrices := (m_weightMatrices s)[l :=
                        (m_weightMatrices s ! l)\<lparr>m_data :=
                           updated_data (m_LEARNINGRATE s) (getActivations (m_layers s ! l))
                             (error_for s l) (m_data (m_weightMatrices s ! l))\<rparr>],
                      m_layers := (m_layers s)[Suc l :=
                        updated_layer (m_LEARNINGRATE s) (error_for s l) (m_layers s ! Suc l)]\<rparr>)"
proof -
  define W where "W = m_weightMatrices s ! l"
  define rows where "rows = m_data W"
  define Lcur where "Lcur = m_layers s ! l"
  define Lnext where "Lnext = m_layers s ! Suc l"
  define A where "A = getActivations Lcur"
  define E where "E = error_for s l"
  define lr where "lr = m_LEARNINGRATE s"
  define newrow where "newrow = (\<lambda>j. updated_row lr A (E ! j) (rows ! j))"
  define newn where "newn = (\<lambda>j. (Lnext ! j)\<lparr>m_bias := m_bias (Lnext ! j) - lr * E ! j\<rparr>)"
  define Wj where "Wj = (\<lambda>j. W\<lparr>m_data := map newrow [0..<j] @ drop j rows\<rparr>)"
  define Lj where "Lj = (\<lambda>j. map newn [0..<j] @ drop j Lnext)"
  define G where "G = (\<lambda>j. s\<lparr>m_weightMatrices := (m_weightMatrices s)[l := Wj j],
                             m_layers := (m_layers s)[Suc l := Lj j]\<rparr>)"
  have n: "length rows = length Lnext" "length E = length Lnext" "l < length (m_layers s)"
    using assms by (simp_all add: rows_def W_def Lnext_def E_def)
  have step: "update_neuron_body l j (G j) = Returns (G (Suc j))" if j: "j < length Lnext" for j
  proof -
    have G_W: "m_weightMatrices (G j) ! l = Wj j" "length (m_weightMatrices (G j)) = length (m_weightMatrices s)"
      using l by (simp_all add: G_def)
    have G_L: "m_layers (G j) ! l = Lcur" "m_layers (G j) ! Suc l = Lj j"
      "length (m_layers (G j)) = length (m_layers s)"
      using l by (simp_all add: G_def Lcur_def)
    have G_E: "m_errors (G j) = m_errors s" "error_for (G j) l = E" "m_LEARNINGRATE (G j) = lr"
      by (simp_all add: G_def E_def lr_def error_for_def)
    have rowj: "m_data (Wj j) ! j = rows ! j" "length (m_data (Wj j)) = length rows"
      using j n by (simp_all add: Wj_def prefix_nth)
    have lenrow: "length (rows ! j) = length Lcur"
      using cols j n by (simp add: rows_def W_def Lcur_def)
    have w: "for_loop [0..<getSize (m_layers (G j) ! l)] (update_weight_body l j) (G j) =
       Returns ((G j)\<lparr>m_weightMatrices := (m_weightMatrices (G j))[l :=
              (m_weightMatrices (G j) ! l)\<lparr>m_data := (m_data (m_weightMatrices (G j) ! l))[j :=
                 updated_row (m_LEARNINGRATE (G j)) (getActivations (m_layers (G j) ! l))
                   (error_for (G j) l ! j) (m_data (m_weightMatrices (G j) ! l) ! j)]\<rparr>]\<rparr>)"
    proof (rule weight_loop)
      show "l < length (m_weightMatrices (G j))" using l by (simp add: G_W)
      show "l < length (m_layers (G j))" using n by (simp add: G_L)
      show "j < length (m_data (m_weightMatrices (G j) ! l))" using j n by (simp add: G_W rowj)
      show "length (m_data (m_weightMatrices (G j) ! l) ! j) = length (m_layers (G j) ! l)"
        by (simp add: G_W G_L rowj lenrow)
      show "l < length (m_errors (G j))" using err by (simp add: G_E)
      show "j < length (error_for (G j) l)" using j n by (simp add: G_E)
    qed
    define s1 where "s1 = (G j)\<lparr>m_weightMatrices := (m_weightMatrices s)[l := Wj (Suc j)]\<rparr>"
    have "(m_data (Wj j))[j := newrow j] = m_data (Wj (Suc j))"
      using j n by (simp add: Wj_def prefix_update del: upt_Suc)
    then have "(Wj j)\<lparr>m_data := (m_data (Wj j))[j := newrow j]\<rparr> = Wj (Suc j)"
      by (simp add: Wj_def)
    then have Wstep: "(Wj j)\<lparr>m_data := (m_data (Wj j))[j := updated_row lr A (E ! j) (rows ! j)]\<rparr>
        = Wj (Suc j)"
      by (simp add: newrow_def)
    have w': "for_loop [0..<getSize Lcur] (update_weight_body l j) (G j) = Returns s1"
      using w unfolding G_W G_L G_E rowj A_def [symmetric] Wstep
      by (simp add: s1_def G_def)
    have s1_L: "m_layers s1 = (m_layers s)[Suc l := Lj j]" "m_errors s1 = m_errors s"
      "m_LEARNINGRATE s1 = lr"
      by (simp_all add: s1_def G_def lr_def)
    have Es1: "error_for s1 l = E"
      using error_for_cong [of s1 s l] s1_L(2) by (simp add: E_def)
    have b: "update_bias l j s1 =
           Returns (s1\<lparr>m_layers := (m_layers s1)[Suc l := (m_layers s1 ! Suc l)[j :=
              (m_layers s1 ! Suc l ! j)\<lparr>m_bias :=
                 m_bias (m_layers s1 ! Suc l ! j) - m_LEARNINGRATE s1 * error_for s1 l ! j\<rparr>]]\<rparr>)"
    proof (rule bias_step)
      show "Suc l < length (m_layers s1)" using l by (simp add: s1_L)
      show "j < length (m_layers s1 ! Suc l)" using l j by (simp add: s1_L Lj_def)
      show "l < length (m_errors s1)" using err by (simp add: s1_L)
      show "j < length (error_for s1 l)" using j n by (simp add: Es1)
    qed
    have Lnth: "m_layers s1 ! Suc l = Lj j" "Lj j ! j = Lnext ! j"
      using l j by (simp_all add: s1_L Lj_def prefix_nth)
    have "(Lj j)[j := newn j] = Lj (Suc j)"
      using j by (simp add: Lj_def prefix_update del: upt_Suc)
    then have Lstep: "(Lj j)[j := (Lnext ! j)\<lparr>m_bias := m_bias (Lnext ! j) - lr * E ! j\<rparr>] = Lj (Suc j)"
      by (simp add: newn_def)
    have b': "update_bias l j s1 = Returns (G (Suc j))"
      unfolding b Lnth Es1 s1_L(3) Lstep
      by (simp add: s1_def G_def)
    show ?thesis
      using n by (simp add: update_neuron_body_def at_def G_L w' b')
  qed
  have "for_loop [0..<length Lnext] (update_neuron_body l) (G 0) = Returns (G (length Lnext))"
    by (rule for_loop_upt_exact) (rule step)
  moreover have "G 0 = s"
    using l by (simp add: G_def Wj_def Lj_def rows_def W_def Lnext_def)
  moreover have "map newrow [0..<length Lnext] = updated_data lr A E rows"
    using n by (simp add: updated_data_def newrow_def)
  moreover have "map newn [0..<length Lnext] = updated_layer lr E Lnext"
    by (simp add: updated_layer_def newn_def)
  ultimately show ?thesis
    using n
    by (simp add: G_def Wj_def Lj_def getSize_def Lnext_def [symmetric] W_def [symmetric]
        rows_def [symmetric] lr_def [symmetric] E_def [symmetric] A_def Lcur_def)
qed

lemma updated_layer_signals:
  "length (updated_layer lr E L) = length L"
  "getActivations (updated_layer lr E L) = getActivations L"
proof -
  show "length (updated_layer lr E L) = length L"
    by (simp add: updated_layer_def)
  show "getActivations (updated_layer lr E L) = getActivations L"
    unfolding updated_layer_def getActivations_def
    by (rule nth_equalityI) simp_all
qed

lemma errors_fit_length:
  assumes "errors_fit net" and "l < length (m_weightMatrices net)"
  shows "l < length (m_errors net)"
    and "length (error_for net l) = length (m_layers net ! Suc l)"
  using assms by (simp_all add: errors_fit_def list_all_iff getSize_def)

lemma well_formed_rows:
  assumes "well_formed net" and "l < length (m_weightMatrices net)"
  shows "length (m_data (m_weightMatrices net ! l)) = length (m_layers net ! Suc l)"
    and "\<forall>j < length (m_data (m_weightMatrices net ! l)).
           length (m_data (m_weightMatrices net ! l) ! j) = length (m_layers net ! l)"
  using well_formed_shape [OF assms]
  by (simp_all add: matrix_shape_def getSize_def list_all_length)

lemma update_closed_form:
  assumes wf: "well_formed net" and ef: "errors_fit net"
  shows "update net = Returns (update_result net)"
proof -
  define n where "n = length (m_weightMatrices net)"
  define L0 where "L0 = hd (m_layers net)"
  define rest where "rest = tl (m_layers net)"
  define lr where "lr = m_LEARNINGRATE net"
  define newL where "newL = (\<lambda>q. updated_layer lr (error_for net q) (m_layers net ! (q + 1)))"
  define Ws where "Ws = (\<lambda>l. map (updated_matrix net) [0..<l] @ drop l (m_weightMatrices net))"
  define Ls where "Ls = (\<lambda>l. L0 # (map newL [0..<l] @ drop l rest))"
  define H where "H = (\<lambda>l. net\<lparr>m_weightMatrices := Ws l, m_layers := Ls l\<rparr>)"
  have layers: "m_layers net = L0 # rest" "length rest = n"
    using well_formed_lengths [OF wf] by (cases "m_layers net"; simp add: L0_def rest_def n_def)+
  have rest_nth: "rest ! q = m_layers net ! Suc q" for q
    by (simp add: layers)
  have step: "update_body l (H l) = Returns (H (Suc l))" if l: "l < n" for l
  proof -
    have W: "Ws l ! l = m_weightMatrices net ! l" "length (Ws l) = n"
      using l by (simp_all add: Ws_def prefix_nth n_def)
    have Lnext: "Ls l ! Suc l = m_layers net ! Suc l" "length (Ls l) = Suc n"
      using l layers(2) by (simp_all add: Ls_def prefix_nth rest_nth)
    have Lcur: "length (Ls l ! l) = length (m_layers net ! l)"
      "getActivations (Ls l ! l) = getActivations (m_layers net ! l)"
    proof -
      show "length (Ls l ! l) = length (m_layers net ! l)"
      proof (cases l)
        case 0
        then show ?thesis by (simp add: Ls_def layers)
      next
        case (Suc q)
        then show ?thesis
          by (simp add: Ls_def nth_append newL_def updated_layer_signals del: upt_Suc)
      qed
      show "getActivations (Ls l ! l) = getActivations (m_layers net ! l)"
      proof (cases l)
        case 0
        then show ?thesis by (simp add: Ls_def layers)
      next
        case (Suc q)
        then show ?thesis
          by (simp add: Ls_def nth_append newL_def updated_layer_signals del: upt_Suc)
      qed
    qed
    have H_f: "m_weightMatrices (H l) = Ws l" "m_layers (H l) = Ls l"
      "m_errors (H l) = m_errors net" "m_LEARNINGRATE (H l) = lr"
      by (simp_all add: H_def lr_def)
    have E: "error_for (H l) l = error_for net l"
      by (rule error_for_cong) (simp add: H_f)
    have lw: "l < length (m_weightMatrices net)" using l by (simp add: n_def)
    note fit = errors_fit_length [OF ef lw] and shape = well_formed_rows [OF wf lw]
    have loop: "for_loop [0..<getSize (m_layers (H l) ! (l + 1))] (update_neuron_body l) (H l) =
           Returns ((H l)\<lparr>m_weightMatrices := (m_weightMatrices (H l))[l :=
                        (m_weightMatrices (H l) ! l)\<lparr>m_data :=
                           updated_data (m_LEARNINGRATE (H l)) (getActivations (m_layers (H l) ! l))
                             (error_for (H l) l) (m_data (m_weightMatrices (H l) ! l))\<rparr>],
                      m_layers := (m_layers (H l))[Suc l :=
                        updated_layer (m_LEARNINGRATE (H l)) (error_for (H l) l) (m_layers (H l) ! Suc l)]\<rparr>)"
    proof (rule neuron_loop)
      show "l < length (m_weightMatrices (H l))" using l by (simp add: H_f W)
      show "Suc l < length (m_layers (H l))" using l by (simp add: H_f Lnext)
      show "length (m_data (m_weightMatrices (H l) ! l)) = length (m_layers (H l) ! Suc l)"
        using shape(1) by (simp add: H_f W Lnext)
      show "\<forall>j<length (m_data (m_weightMatrices (H l) ! l)).
         length (m_data (m_weightMatrices (H l) ! l) ! j) = length (m_layers (H l) ! l)"
        using shape(2) by (simp add: H_f W Lcur)
      show "l < length (m_errors (H l))" using fit(1) by (simp add: H_f)
      show "length (error_for (H l) l) = length (m_layers (H l) ! Suc l)"
        using fit(2) by (simp add: E H_f Lnext)
    qed
    have newW: "(m_weightMatrices net ! l)\<lparr>m_data :=
        updated_data lr (getActivations (m_layers net ! l)) (error_for net l)
          (m_data (m_weightMatrices net ! l))\<rparr> = updated_matrix net l"
      by (simp add: updated_matrix_def lr_def)
    have Wstep: "(Ws l)[l := updated_matrix net l] = Ws (Suc l)"
      using lw by (simp add: Ws_def prefix_update del: upt_Suc)
    have "(map newL [0..<l] @ drop l rest)[l := newL l] = map newL [0..<Suc l] @ drop (Suc l) rest"
      using l layers(2) by (intro prefix_update) simp_all
    then have Lstep: "(Ls l)[Suc l := updated_layer lr (error_for net l) (m_layers net ! Suc l)] = Ls (Suc l)"
      by (simp add: Ls_def newL_def del: upt_Suc)
    have loop': "for_loop [0..<getSize (m_layers net ! Suc l)] (update_neuron_body l) (H l) =
        Returns (H (Suc l))"
      using loop unfolding H_f E W Lnext Lcur newW Wstep Lstep
      by (simp add: H_def Lnext)
    have "update_body l (H l) =
        for_loop [0..<getSize (m_layers net ! Suc l)] (update_neuron_body l) (H l)"
      using l fit(1)
      by (simp add: update_body_def at_def H_f W Lnext errors_at_eq)
    with loop' show ?thesis by simp
  qed
  have "for_loop [0..<n] update_body (H 0) = Returns (H n)"
    by (rule for_loop_upt_exact) (rule step)
  moreover have "H 0 = net"
    by (simp add: H_def Ws_def Ls_def layers)
  moreover have "H n = update_result net"
    using layers
    by (simp add: H_def Ws_def Ls_def update_result_def n_def newL_def lr_def L0_def)
  ultimately show ?thesis
    by (simp add: update_def n_def)
qed

subsection \<open>feedForward\<close>

lemma feedForward_set_loop:
  assumes l: "Suc l < length (m_layers s)" and v: "length v = length (m_layers s ! Suc l)"
  shows "for_loop [0..<length v] (feedForward_set_body ns l v) s =
           Returns (s\<lparr>m_layers := (m_layers s)[Suc l :=
              map (\<lambda>j. ns (v ! j) (m_layers s ! Suc l ! j)) [0..<length v]]\<rparr>)"
proof -
  define L where "L = m_layers s ! Suc l"
  define f where "f = (\<lambda>j. ns (v ! j) (L ! j))"
  define F where "F = (\<lambda>k. s\<lparr>m_layers := (m_layers s)[Suc l := map f [0..<k] @ drop k L]\<rparr>)"
  have step: "feedForward_set_body ns l v k (F k) = Returns (F (Suc k))" if "k < length v" for k
    using that l v
    by (simp add: feedForward_set_body_def F_def at_def setInputAt_def prefix_nth prefix_update
        L_def [symmetric] f_def del: upt_Suc)
  have "for_loop [0..<length v] (feedForward_set_body ns l v) (F 0) = Returns (F (length v))"
    by (rule for_loop_upt_exact) (rule step)
  moreover have "F 0 = s"
    by (simp add: F_def L_def)
  ultimately show ?thesis
    using v by (simp add: F_def L_def f_def)
qed

lemma feedForward_body_closed:
  assumes l: "l < length (m_weightMatrices s)" "Suc l < length (m_layers s)"
    and shape: "matrix_shape (m_weightMatrices s ! l) (getSize (m_layers s ! Suc l))
                  (getSize (m_layers s ! l))"
  shows "feedForward_body ns l s =
           Returns (s\<lparr>m_layers := (m_layers s)[Suc l :=
              fed_layer ns (m_weightMatrices s ! l) (m_layers s ! l) (m_layers s ! Suc l)]\<rparr>)"
proof -
  define W where "W = m_weightMatrices s ! l"
  define A where "A = getActivations (m_layers s ! l)"
  define v where "v = map (\<lambda>row. dot row A) (m_data W)"
  have mv: "mat_vec W A = Inr v"
    using shape by (simp add: mat_vec_def v_def W_def A_def matrix_shape_def getSize_def
        getActivations_def)
  have len: "length v = length (m_layers s ! Suc l)"
    using shape by (simp add: v_def W_def matrix_shape_def getSize_def)
  have "feedForward_body ns l s = for_loop [0..<length v] (feedForward_set_body ns l v) s"
    using l by (simp add: feedForward_body_def at_def Let_def W_def [symmetric] A_def [symmetric] mv)
  also have "\<dots> = Returns (s\<lparr>m_layers := (m_layers s)[Suc l :=
              map (\<lambda>j. ns (v ! j) (m_layers s ! Suc l ! j)) [0..<length v]]\<rparr>)"
    by (rule feedForward_set_loop [OF l(2) len])
  also have "map (\<lambda>j. ns (v ! j) (m_layers s ! Suc l ! j)) [0..<length v] =
      fed_layer ns W (m_layers s ! l) (m_layers s ! Suc l)"
    using len shape
    by (simp add: fed_layer_def v_def A_def W_def matrix_shape_def getSize_def)
  finally show ?thesis by (simp add: W_def)
qed

lemma length_fed_layer: "length (fed_layer ns W Lcur Lnext) = length Lnext"
  by (simp add: fed_layer_def)


lemma same_frame_well_formed:
  assumes "same_frame net s" and "well_formed net"
  shows "well_formed s"
proof -
  from assms(1) have eq: "m_weightMatrices s = m_weightMatrices net"
    "map length (m_layers s) = map length (m_layers net)" "m_numLayers s = m_numLayers net"
    by (simp_all add: same_frame_def)
  from eq(2) have len: "length (m_layers s) = length (m_layers net)"
    by (rule map_eq_imp_length_eq)
  have nth: "length (m_layers s ! q) = length (m_layers net ! q)" if "q < length (m_layers net)" for q
    using eq(2) that len by (metis nth_map)
  show ?thesis
    using assms(2) len eq(1,3)
    by (auto simp: well_formed_def list_all_iff getSize_def nth)
qed



lemma update_result_weight:
  assumes wf: "well_formed net" and l: "l < length (m_weightMatrices net)"
    and j: "j < getSize (m_layers net ! (l + 1))" and i: "i < getSize (m_layers net ! l)"
  shows "m_data (m_weightMatrices (update_result net) ! l) ! j ! i =
           m_data (m_weightMatrices net ! l) ! j ! i
             - m_LEARNINGRATE net * getActivations (m_layers net ! l) ! i * error_for net l ! j"
proof -
  note rows = well_formed_rows [OF wf l]
  have j': "j < length (m_data (m_weightMatrices net ! l))"
    using j rows(1) by (simp add: getSize_def)
  have i': "i < length (m_data (m_weightMatrices net ! l) ! j)"
    using i rows(2) j' by (simp add: getSize_def)
  show ?thesis
    using l j' i'
    by (simp add: update_result_def updated_matrix_def updated_data_def updated_row_def)
qed

lemma update_result_bias:
  assumes l: "l < length (m_weightMatrices net)" and j: "j < getSize (m_layers net ! (l + 1))"
  shows "m_bias (m_layers (update_result net) ! (l + 1) ! j) =
           m_bias (m_layers net ! (l + 1) ! j) - m_LEARNINGRATE net * error_for net l ! j"
  using assms by (simp add: update_result_def updated_layer_def getSize_def)

lemma well_formed_demo_back: "well_formed demo_back"
  by (simp add: well_formed_def demo_back_def demo_net_def matrix_shape_def getSize_def
      numeral_2_eq_2)

lemma errors_fit_demo_back: "errors_fit demo_back"
  by (simp add: errors_fit_def demo_back_def demo_net_def error_for_def getSize_def
      numeral_2_eq_2)

subsection \<open>train\<close>

lemma well_formed_m_errors [simp]: "well_formed (s\<lparr>m_errors := x\<rparr>) = well_formed s"
  by (simp add: well_formed_def)

lemma output_error_m_errors [simp]: "output_error (s\<lparr>m_errors := x\<rparr>) = output_error s"
  by (simp add: output_error_def)

lemma produced_errors_m_errors [simp]: "produced_errors (s\<lparr>m_errors := x\<rparr>) = produced_errors s"
  by (simp add: produced_errors_def errors_after_m_errors)










lemma list_two: "length xs = 2 \<Longrightarrow> xs = [xs ! 0, xs ! 1]"
  by (cases xs; cases "tl xs") auto

lemma well_formed_demo_two: "well_formed demo_two"
  by (simp add: well_formed_def demo_two_def matrix_shape_def getSize_def)

lemma demo_two_forward:
  "feedForward ns_demo demo_two =
     Returns (demo_two\<lparr>m_layers :=
        [[\<lparr>m_input = 3, m_activation = 3, m_derivative = 1, m_bias = 0\<rparr>,
          \<lparr>m_input = 4, m_activation = 4, m_derivative = 1, m_bias = 0\<rparr>],
         [\<lparr>m_input = 11, m_activation = 11, m_derivative = 1, m_bias = 6\<rparr>]]\<rparr>)"
  by code_simp

subsection \<open>The constructor builds well-formed networks\<close>

lemma length_ctor_layer: "length (ctor_layer n0 rnd k layerSizes l) = nat (layerSizes ! l)"
  by (simp add: ctor_layer_def Layer_def)

lemma Network_well_formed:
  assumes "2 \<le> length layerSizes" and "Network n0 lr rnd k layerSizes = Returns (s, k')"
  shows "well_formed s"
proof -
  let ?t = "length layerSizes - 1"
  from assms(2) have s: "s = fst (ctor_state n0 lr rnd k layerSizes ?t)"
    by (simp add: Network_closed_form)
  have layers: "m_layers s ! l = ctor_layer n0 rnd k layerSizes l" if "l < length layerSizes" for l
  proof -
    from that have "l \<le> ?t" by simp
    with that show ?thesis by (simp add: s ctor_state_def)
  qed
  have shape: "matrix_shape (m_weightMatrices s ! l) (getSize (m_layers s ! (l + 1)))
      (getSize (m_layers s ! l))" if "l < ?t" for l
  proof -
    from that have l: "l < length layerSizes" "l + 1 < length layerSizes" by simp_all
    have "m_weightMatrices s ! l = Matrix_random rnd (rng_before k layerSizes l)
        (layerSizes ! (l + 1)) (layerSizes ! l)"
      using that by (simp add: s ctor_state_def ctor_matrix_def)
    then show ?thesis
      using Matrix_random_shape [of rnd "rng_before k layerSizes l" "layerSizes ! (l + 1)" "layerSizes ! l"]
      by (simp only: layers [OF l(1)] layers [OF l(2)] getSize_def length_ctor_layer)
  qed
  have "length (m_layers s) = length layerSizes" "m_numLayers s = length layerSizes"
    "length (m_weightMatrices s) = ?t"
    by (simp_all add: s ctor_state_def)
  with assms(1) shape show ?thesis
    by (simp add: well_formed_def list_all_iff)
qed

subsection \<open>The bias in the forward pass\<close>

text \<open>
  \<^verbatim>\<open>feedForward\<close> hands the product of weight matrix and activations to
  \<^verbatim>\<open>setInputAt\<close> and reads no bias itself. Whether a stored bias reaches an activation
  is decided by the neuron's setter, whose body the sources do not contain: with a
  setter that does not read the bias two networks that differ in one bias have the same
  activations after \<^verbatim>\<open>feedForward\<close>, with one that adds it they have not.
\<close>

lemma forward_bias_unread:
  "map getActivations (m_layers (final (feedForward ns_demo demo_two))) = [[3, 4], [11]] \<and>
   map getActivations (m_layers (final (feedForward ns_demo demo_two_rebiased))) = [[3, 4], [11]]"
  by code_simp

lemma forward_bias_read:
  "map getActivations (m_layers (final (feedForward ns_bias demo_two))) = [[3, 4], [17]] \<and>
   map getActivations (m_layers (final (feedForward ns_bias demo_two_rebiased))) = [[3, 4], [71]]"
  by code_simp

section \<open>The claims\<close>

subsection \<open>C1: the error vectors of backPropagate\<close>

text \<open>
  Claim C1. On a well-formed network in which a target of the output layer's length is
  stored (the layers hold whatever \<^verbatim>\<open>feedForward\<close> left in them), \<^verbatim>\<open>backPropagate\<close>
  returns normally and appends a list \<open>produced\<close> of \<open>numLayers - 1\<close> vectors to the error
  list; \<open>produced\<close> is the whole error list when the list was empty before the call, as
  it is in \<^verbatim>\<open>train\<close>. Element 0 of \<open>produced\<close> has the length of the output layer, and
  its entry \<open>i\<close> is \<open>(activation[i] - target[i]) * derivative[i]\<close> of output neuron \<open>i\<close>.
  For every hidden layer \<open>l\<close>, from \<open>numLayers - 2\<close> down to 1, the vector of layer \<open>l\<close> is
  element \<open>numLayers - 1 - l\<close>: it has the size of layer \<open>l\<close> and is the elementwise
  product of \<open>transpose(WeightMatrix[l]) \<cdot> (vector of layer l + 1)\<close> with the derivatives
  of layer \<open>l\<close>. There is no vector for layer 0.
\<close>

theorem backPropagate_errors:
  assumes "well_formed net" and "length (m_targetOutput net) = getSize (last (m_layers net))"
  shows "\<exists>produced.
           backPropagate net = Returns (net\<lparr>m_errors := m_errors net @ produced\<rparr>) \<and>
           length produced = m_numLayers net - 1 \<and>
           length (produced ! 0) = getSize (last (m_layers net)) \<and>
           (\<forall>i < getSize (last (m_layers net)).
              produced ! 0 ! i =
                (getActivations (last (m_layers net)) ! i - m_targetOutput net ! i)
                  * getDerivatives (last (m_layers net)) ! i) \<and>
           (\<forall>l. 1 \<le> l \<and> l < m_numLayers net - 1 \<longrightarrow>
              length (produced ! (m_numLayers net - 1 - l)) = getSize (m_layers net ! l) \<and>
              (\<exists>projected.
                 mat_vec (transpose_mat (m_weightMatrices net ! l))
                   (produced ! (m_numLayers net - 1 - (l + 1))) = Inr projected \<and>
                 hadamardProduct projected (getDerivatives (m_layers net ! l))
                   = Inr (produced ! (m_numLayers net - 1 - l))))"
proof -
  let ?n = "m_numLayers net"
  let ?p = "produced_errors net"
  note wf = assms(1) and tgt = assms(2)
  have p0: "?p ! 0 = output_error net"
    by (simp add: produced_errors_nth)
  have len0: "length (?p ! 0) = getSize (last (m_layers net))"
    using tgt by (simp add: p0 output_error_def getSize_def getActivations_def getDerivatives_def)
  have hidden: "length (?p ! (?n - 1 - l)) = getSize (m_layers net ! l) \<and>
      (\<exists>projected.
         mat_vec (transpose_mat (m_weightMatrices net ! l)) (?p ! (?n - 1 - (l + 1))) = Inr projected \<and>
         hadamardProduct projected (getDerivatives (m_layers net ! l)) = Inr (?p ! (?n - 1 - l)))"
    if l: "1 \<le> l \<and> l < ?n - 1" for l
  proof -
    from l have l1: "1 \<le> l" "l < ?n - 1" "l < ?n" "1 \<le> l + 1" "l + 1 < ?n" by auto
    have lw: "l < length (m_weightMatrices net)"
      using l1 well_formed_lengths [OF wf] by simp
    have len_next: "length (layer_error net (l + 1)) = getSize (m_layers net ! (l + 1))"
      by (rule layer_error_length [OF wf tgt l1(4,5)])
    have shape: "matrix_shape (m_weightMatrices net ! l) (length (layer_error net (l + 1)))
        (length (m_layers net ! l))"
      using well_formed_shape [OF wf lw] len_next by (simp add: getSize_def)
    have rec: "layer_error net l = hidden_error net l (layer_error net (l + 1))"
      by (rule layer_error_hidden [OF l1(1,2)])
    have "length (layer_error net l) = getSize (m_layers net ! l)"
      by (rule layer_error_length [OF wf tgt l1(1,3)])
    moreover have "mat_vec (transpose_mat (m_weightMatrices net ! l)) (layer_error net (l + 1)) =
        Inr (map (\<lambda>row. dot row (layer_error net (l + 1)))
              (m_data (transpose_mat (m_weightMatrices net ! l))))"
      by (rule hidden_error_ops(1) [OF shape refl refl])
    moreover have "hadamardProduct
        (map (\<lambda>row. dot row (layer_error net (l + 1)))
              (m_data (transpose_mat (m_weightMatrices net ! l))))
        (getDerivatives (m_layers net ! l)) = Inr (layer_error net l)"
      unfolding rec by (rule hidden_error_ops(2) [OF shape refl refl])
    ultimately show ?thesis
      unfolding layer_error_def by blast
  qed
  have "backPropagate net = Returns (net\<lparr>m_errors := m_errors net @ ?p\<rparr>)"
    by (rule backPropagate_closed_form [OF wf tgt])
  moreover have "length ?p = ?n - 1"
    by (rule length_produced_errors [OF wf])
  moreover have "\<forall>i < getSize (last (m_layers net)).
      ?p ! 0 ! i = (getActivations (last (m_layers net)) ! i - m_targetOutput net ! i)
                  * getDerivatives (last (m_layers net)) ! i"
    using output_error_nth [OF tgt] by (simp add: p0)
  ultimately show ?thesis
    using len0 hidden by blast
qed

theorem backPropagate_errors_witness:
  "well_formed demo_net \<and>
   length (m_targetOutput demo_net) = getSize (last (m_layers demo_net)) \<and>
   backPropagate demo_net = Returns (demo_net\<lparr>m_errors := [[2], [20, 36]]\<rparr>)"
proof -
  from backPropagate_errors [OF well_formed_demo_net target_demo_net]
  obtain produced where p:
    "backPropagate demo_net = Returns (demo_net\<lparr>m_errors := m_errors demo_net @ produced\<rparr>)"
    "length produced = m_numLayers demo_net - 1"
    "length (produced ! 0) = getSize (last (m_layers demo_net))"
    "\<forall>i < getSize (last (m_layers demo_net)).
              produced ! 0 ! i =
                (getActivations (last (m_layers demo_net)) ! i - m_targetOutput demo_net ! i)
                  * getDerivatives (last (m_layers demo_net)) ! i"
    "\<forall>l. 1 \<le> l \<and> l < m_numLayers demo_net - 1 \<longrightarrow>
              length (produced ! (m_numLayers demo_net - 1 - l)) = getSize (m_layers demo_net ! l) \<and>
              (\<exists>projected.
                 mat_vec (transpose_mat (m_weightMatrices demo_net ! l))
                   (produced ! (m_numLayers demo_net - 1 - (l + 1))) = Inr projected \<and>
                 hadamardProduct projected (getDerivatives (m_layers demo_net ! l))
                   = Inr (produced ! (m_numLayers demo_net - 1 - l)))"
    by blast
  have len: "length produced = 2"
    using p(2) by (simp add: demo_net_def)
  have "length (produced ! 0) = 1" "produced ! 0 ! 0 = 2"
    using p(3) p(4) [rule_format, of 0]
    by (simp_all add: demo_net_def getSize_def getActivations_def getDerivatives_def)
  then have p0: "produced ! 0 = [2]"
    by (cases "produced ! 0") simp_all
  from p(5) [rule_format, of 1] obtain projected where
    "mat_vec (transpose_mat (m_weightMatrices demo_net ! 1)) (produced ! 0) = Inr projected"
    "hadamardProduct projected (getDerivatives (m_layers demo_net ! 1)) = Inr (produced ! 1)"
    by (auto simp: demo_net_def)
  then have p1: "produced ! 1 = [20, 36]"
    by (auto simp: p0 demo_net_def mat_vec_def transpose_mat_def dot_def hadamardProduct_def
        getDerivatives_def numeral_2_eq_2 split: if_splits)
  have "produced = [produced ! 0, produced ! 1]"
    using len by (intro nth_equalityI) (auto simp: less_Suc_eq numeral_2_eq_2)
  with p0 p1 have "produced = [[2], [20, 36]]" by simp
  with p(1) show ?thesis
    using well_formed_demo_net target_demo_net by (simp add: demo_net_def)
qed

subsection \<open>C2: the delta rule of update\<close>

text \<open>
  Claim C2. On a well-formed network whose error list holds one vector per weight
  matrix, each of the size of the layer its matrix leads to, \<^verbatim>\<open>update\<close> returns
  normally, and in the resulting network, for every weight-matrix index \<open>l\<close>, entry
  \<open>(j, i)\<close> of weight matrix \<open>l\<close> is the old weight minus learning rate times the
  activation of neuron \<open>i\<close> of layer \<open>l\<close> times the error of neuron \<open>j\<close> of layer \<open>l + 1\<close>,
  and the bias of neuron \<open>j\<close> of layer \<open>l + 1\<close> is the old bias minus learning rate times
  that error; the error vector of layer \<open>l + 1\<close> is element
  \<open>numWeightMatrices - 1 - l\<close> of the error list.
\<close>

theorem update_delta_rule:
  assumes "well_formed net" and "errors_fit net"
    and "length (m_errors net) = length (m_weightMatrices net)"
  shows "\<exists>net'. update net = Returns net' \<and>
           (\<forall>l j i. l < length (m_weightMatrices net) \<and> j < getSize (m_layers net ! (l + 1)) \<and>
                    i < getSize (m_layers net ! l) \<longrightarrow>
              m_data (m_weightMatrices net' ! l) ! j ! i =
                m_data (m_weightMatrices net ! l) ! j ! i
                  - m_LEARNINGRATE net * getActivations (m_layers net ! l) ! i
                      * m_errors net ! (length (m_weightMatrices net) - 1 - l) ! j) \<and>
           (\<forall>l j. l < length (m_weightMatrices net) \<and> j < getSize (m_layers net ! (l + 1)) \<longrightarrow>
              m_bias (m_layers net' ! (l + 1) ! j) =
                m_bias (m_layers net ! (l + 1) ! j)
                  - m_LEARNINGRATE net * m_errors net ! (length (m_weightMatrices net) - 1 - l) ! j)"
proof -
  have e: "error_for net l = m_errors net ! (length (m_weightMatrices net) - 1 - l)" for l
    by (simp add: error_for_def assms(3))
  have "update net = Returns (update_result net)"
    by (rule update_closed_form [OF assms(1,2)])
  moreover have "\<forall>l j i. l < length (m_weightMatrices net) \<and> j < getSize (m_layers net ! (l + 1)) \<and>
                    i < getSize (m_layers net ! l) \<longrightarrow>
              m_data (m_weightMatrices (update_result net) ! l) ! j ! i =
                m_data (m_weightMatrices net ! l) ! j ! i
                  - m_LEARNINGRATE net * getActivations (m_layers net ! l) ! i
                      * m_errors net ! (length (m_weightMatrices net) - 1 - l) ! j"
    using update_result_weight [OF assms(1)] unfolding e by blast
  moreover have "\<forall>l j. l < length (m_weightMatrices net) \<and> j < getSize (m_layers net ! (l + 1)) \<longrightarrow>
              m_bias (m_layers (update_result net) ! (l + 1) ! j) =
                m_bias (m_layers net ! (l + 1) ! j)
                  - m_LEARNINGRATE net * m_errors net ! (length (m_weightMatrices net) - 1 - l) ! j"
    using update_result_bias [of _ net] unfolding e by blast
  ultimately show ?thesis by blast
qed

theorem update_delta_rule_witness:
  "well_formed demo_back \<and> errors_fit demo_back \<and>
   length (m_errors demo_back) = length (m_weightMatrices demo_back) \<and>
   (\<exists>net'. update demo_back = Returns net' \<and>
      m_data (m_weightMatrices net' ! 0) ! 1 ! 0 = - 33 \<and>
      m_data (m_weightMatrices net' ! 1) ! 0 ! 1 = - 16 \<and>
      m_bias (m_layers net' ! 1 ! 1) = - 28 \<and>
      m_bias (m_layers net' ! 2 ! 0) = 7)"
proof -
  have len: "length (m_errors demo_back) = length (m_weightMatrices demo_back)"
    by (simp add: demo_back_def demo_net_def)
  from update_delta_rule [OF well_formed_demo_back errors_fit_demo_back len]
  obtain net' where r: "update demo_back = Returns net'"
    and w: "\<And>l j i. l < length (m_weightMatrices demo_back) \<and> j < getSize (m_layers demo_back ! (l + 1)) \<and>
                    i < getSize (m_layers demo_back ! l) \<Longrightarrow>
              m_data (m_weightMatrices net' ! l) ! j ! i =
                m_data (m_weightMatrices demo_back ! l) ! j ! i
                  - m_LEARNINGRATE demo_back * getActivations (m_layers demo_back ! l) ! i
                      * m_errors demo_back ! (length (m_weightMatrices demo_back) - 1 - l) ! j"
    and b: "\<And>l j. l < length (m_weightMatrices demo_back) \<and> j < getSize (m_layers demo_back ! (l + 1)) \<Longrightarrow>
              m_bias (m_layers net' ! (l + 1) ! j) =
                m_bias (m_layers demo_back ! (l + 1) ! j)
                  - m_LEARNINGRATE demo_back * m_errors demo_back ! (length (m_weightMatrices demo_back) - 1 - l) ! j"
    by blast
  have "m_data (m_weightMatrices net' ! 0) ! 1 ! 0 = - 33"
    using w [of 0 1 0] by (simp add: demo_back_def demo_net_def getSize_def getActivations_def)
  moreover have "m_data (m_weightMatrices net' ! 1) ! 0 ! 1 = - 16"
    using w [of 1 0 1] by (simp add: demo_back_def demo_net_def getSize_def getActivations_def)
  moreover have "m_bias (m_layers net' ! 1 ! 1) = - 28"
    using b [of 0 1] by (simp add: demo_back_def demo_net_def getSize_def)
  moreover have "m_bias (m_layers net' ! 2 ! 0) = 7"
    using b [of 1 0] by (simp add: demo_back_def demo_net_def getSize_def numeral_2_eq_2)
  ultimately show ?thesis
    using r well_formed_demo_back errors_fit_demo_back len by blast
qed

subsection \<open>C4: the network the constructor builds\<close>

text \<open>
  Claim C4. For every sequence of layer sizes \<open>[n\<^sub>0, \<dots>, n\<^sub>k]\<close> with at least two entries,
  each at least 1, the constructor returns a network with \<open>k + 1\<close> layers and \<open>k\<close> weight
  matrices; layer \<open>l\<close> has \<open>n\<^sub>l\<close> neurons; weight matrix \<open>l\<close> has \<open>n\<^sub>l\<^sub>+\<^sub>1\<close> rows and \<open>n\<^sub>l\<close>
  columns; the bias of neuron \<open>j\<close> of every layer \<open>l \<ge> 1\<close> is the value returned by a call
  of the random generator made during the construction (call \<open>bias_draw k layerSizes l j\<close>,
  one call per neuron); and the input layer is as \<^verbatim>\<open>Layer\<close> built it: none of its
  biases is written.
\<close>

theorem Network_structure:
  assumes "2 \<le> length layerSizes" and "list_all (\<lambda>n. 1 \<le> n) layerSizes"
  shows "\<exists>s k'. Network n0 lr rnd k layerSizes = Returns (s, k') \<and>
           m_numLayers s = length layerSizes \<and>
           length (m_layers s) = length layerSizes \<and>
           length (m_weightMatrices s) = length layerSizes - 1 \<and>
           (\<forall>l < length layerSizes. getSize (m_layers s ! l) = nat (layerSizes ! l)) \<and>
           (\<forall>l < length layerSizes - 1.
              matrix_shape (m_weightMatrices s ! l) (nat (layerSizes ! (l + 1))) (nat (layerSizes ! l))) \<and>
           (\<forall>l j. 1 \<le> l \<and> l < length layerSizes \<and> j < nat (layerSizes ! l) \<longrightarrow>
              m_bias (m_layers s ! l ! j) = rnd (bias_draw k layerSizes l j) \<and>
              k \<le> bias_draw k layerSizes l j \<and> bias_draw k layerSizes l j < k') \<and>
           m_layers s ! 0 = Layer n0 (layerSizes ! 0)"
proof -
  let ?t = "length layerSizes - 1"
  let ?s = "fst (ctor_state n0 lr rnd k layerSizes ?t)"
  let ?k' = "rng_before k layerSizes ?t"
  have ret: "Network n0 lr rnd k layerSizes = Returns (?s, ?k')"
    by (simp add: Network_closed_form ctor_state_def)
  have layers: "m_layers ?s ! l = ctor_layer n0 rnd k layerSizes l" if "l < length layerSizes" for l
  proof -
    from that have "l \<le> ?t" by simp
    with that show ?thesis by (simp add: ctor_state_def)
  qed
  have sizes: "getSize (m_layers ?s ! l) = nat (layerSizes ! l)" if "l < length layerSizes" for l
    using layers [OF that] by (simp add: getSize_def ctor_layer_def Layer_def)
  have shapes: "matrix_shape (m_weightMatrices ?s ! l) (nat (layerSizes ! (l + 1))) (nat (layerSizes ! l))"
    if "l < ?t" for l
    using that by (simp add: ctor_state_def ctor_matrix_def Matrix_random_shape)
  have biases: "m_bias (m_layers ?s ! l ! j) = rnd (bias_draw k layerSizes l j) \<and>
      k \<le> bias_draw k layerSizes l j \<and> bias_draw k layerSizes l j < ?k'"
    if "1 \<le> l \<and> l < length layerSizes \<and> j < nat (layerSizes ! l)" for l j
  proof -
    from that have l: "1 \<le> l" "l \<le> ?t" "j < nat (layerSizes ! l)" "l < length layerSizes"
      by auto
    have "m_bias (m_layers ?s ! l ! j) = rnd (bias_draw k layerSizes l j)"
      using l layers [OF l(4)] by (simp add: ctor_layer_def bias_draw_def)
    with bias_draw_bounds [OF l(1,2,3), of k] show ?thesis by simp
  qed
  have "0 < length layerSizes"
    using assms(1) by (cases layerSizes) simp_all
  from layers [OF this] have first: "m_layers ?s ! 0 = Layer n0 (layerSizes ! 0)"
    by (simp add: ctor_layer_def)
  have "m_numLayers ?s = length layerSizes" "length (m_layers ?s) = length layerSizes"
    "length (m_weightMatrices ?s) = ?t"
    by (simp_all add: ctor_state_def)
  with ret sizes shapes biases first show ?thesis by blast
qed

theorem Network_structure_witness:
  "2 \<le> length [2, 1, 1 :: int] \<and> list_all (\<lambda>n. 1 \<le> n) [2, 1, 1 :: int] \<and>
   (\<exists>s k'. Network neuron0 1 int 0 [2, 1, 1] = Returns (s, k') \<and>
           m_numLayers s = 3 \<and> length (m_layers s) = 3 \<and> length (m_weightMatrices s) = 2 \<and>
           matrix_shape (m_weightMatrices s ! 0) 1 2 \<and>
           m_bias (m_layers s ! 1 ! 0) = 2 \<and>
           m_layers s ! 0 = [neuron0, neuron0])"
proof -
  have h: "2 \<le> length [2, 1, 1 :: int]" "list_all (\<lambda>n. 1 \<le> n) [2, 1, 1 :: int]"
    by simp_all
  from Network_structure [OF h, of neuron0 1 int 0]
  obtain s k' where s: "Network neuron0 1 int 0 [2, 1, 1] = Returns (s, k')"
    "m_numLayers s = length [2, 1, 1 :: int]" "length (m_layers s) = length [2, 1, 1 :: int]"
    "length (m_weightMatrices s) = length [2, 1, 1 :: int] - 1"
    "\<forall>l < length [2, 1, 1 :: int] - 1.
       matrix_shape (m_weightMatrices s ! l) (nat ([2, 1, 1] ! (l + 1))) (nat ([2, 1, 1] ! l))"
    "\<forall>l j. 1 \<le> l \<and> l < length [2, 1, 1 :: int] \<and> j < nat ([2, 1, 1] ! l) \<longrightarrow>
        m_bias (m_layers s ! l ! j) = int (bias_draw 0 [2, 1, 1] l j) \<and>
        0 \<le> bias_draw 0 [2, 1, 1] l j \<and> bias_draw 0 [2, 1, 1] l j < k'"
    "m_layers s ! 0 = Layer neuron0 ([2, 1, 1] ! 0)"
    by blast
  have "matrix_shape (m_weightMatrices s ! 0) 1 2"
    using s(5) [rule_format, of 0] by simp
  moreover have "m_bias (m_layers s ! 1 ! 0) = 2"
    using s(6) [rule_format, of 1 0] by (simp add: bias_draw_def)
  moreover have "m_layers s ! 0 = [neuron0, neuron0]"
    using s(7) by (simp add: Layer_def numeral_2_eq_2)
  ultimately show ?thesis
    using h s(1-4) by auto
qed

subsection \<open>C5: train, one gradient step per sample, in order\<close>



subsection \<open>C6: setInput and the length of its argument\<close>

text \<open>
  Claim C6, as amended. \<^verbatim>\<open>setInput\<close> does not compare the length of the vector with
  the size of layer 0. With a vector that is not longer than layer 0 it returns
  normally: the vector is stored in \<^verbatim>\<open>m_input\<close>, neuron \<open>i\<close> of layer 0 has had its input
  set to \<open>input[i]\<close> for every \<open>i\<close> below the length of the vector, and the other neurons
  are as before. With a longer vector it throws the out-of-range error of the layer's
  index check, at the index that equals the size of layer 0, after it has stored the
  vector and set the input of every neuron of layer 0; what was written stays.
\<close>

theorem setInput_no_length_check:
  assumes "m_layers net = L0 # Ls"
  shows "(length input \<le> getSize L0 \<longrightarrow>
            setInput ns net input =
              Returns (net\<lparr>m_netInput := input,
                 m_layers := (map (\<lambda>i. ns (input ! i) (L0 ! i)) [0..<length input]
                               @ drop (length input) L0) # Ls\<rparr>)) \<and>
         (getSize L0 < length input \<longrightarrow>
            setInput ns net input =
              Throws OutOfRange (net\<lparr>m_netInput := input,
                 m_layers := map (\<lambda>i. ns (input ! i) (L0 ! i)) [0..<getSize L0] # Ls\<rparr>))"
proof (intro conjI impI)
  assume "length input \<le> getSize L0"
  then show "setInput ns net input =
              Returns (net\<lparr>m_netInput := input,
                 m_layers := (map (\<lambda>i. ns (input ! i) (L0 ! i)) [0..<length input]
                               @ drop (length input) L0) # Ls\<rparr>)"
    unfolding setInput_def using setInput_prefix [OF assms, of "length input" input ns]
    by (simp add: getSize_def)
next
  assume long: "getSize L0 < length input"
  let ?n = "length L0"
  let ?s = "net\<lparr>m_netInput := input,
                 m_layers := map (\<lambda>i. ns (input ! i) (L0 ! i)) [0..<?n] # Ls\<rparr>"
  have pre: "for_loop [0..<?n] (setInput_body ns input) (net\<lparr>m_netInput := input\<rparr>) = Returns ?s"
    using setInput_prefix [OF assms, of ?n input ns] long by (simp add: getSize_def)
  have thr: "setInput_body ns input ?n ?s = Throws OutOfRange ?s"
    using long by (simp add: setInput_body_def at_def setInputAt_def getSize_def)
  have "[0..<length input] = [0..<?n] @ [?n..<length input]"
    using long upt_add_eq_append [of 0 ?n "length input - ?n"] by (simp add: getSize_def)
  also have "[?n..<length input] = ?n # [Suc ?n..<length input]"
    using long by (simp add: getSize_def upt_conv_Cons)
  finally have split: "[0..<length input] = [0..<?n] @ ?n # [Suc ?n..<length input]" .
  show "setInput ns net input =
              Throws OutOfRange (net\<lparr>m_netInput := input,
                 m_layers := map (\<lambda>i. ns (input ! i) (L0 ! i)) [0..<getSize L0] # Ls\<rparr>)"
    unfolding setInput_def split getSize_def
    by (rule for_loop_throws [OF pre thr])
qed

text \<open>
  The claim as stated fails for a vector shorter than layer 0: on the example network,
  whose layer 0 has two neurons, \<^verbatim>\<open>setInput\<close> with the vector \<open>[40]\<close> returns normally
  and has changed \<^verbatim>\<open>m_input\<close> and the first neuron.
\<close>

theorem setInput_short_input:
  "setInput ns_demo demo_net [40] =
     Returns (demo_net\<lparr>m_netInput := [40],
        m_layers :=
          [[\<lparr>m_input = 40, m_activation = 40, m_derivative = 1, m_bias = 0\<rparr>,
            \<lparr>m_input = 2, m_activation = 2, m_derivative = 1, m_bias = 0\<rparr>],
           [\<lparr>m_input = 5, m_activation = 5, m_derivative = 2, m_bias = 7\<rparr>,
            \<lparr>m_input = 11, m_activation = 11, m_derivative = 3, m_bias = 8\<rparr>],
           [\<lparr>m_input = 91, m_activation = 91, m_derivative = 2, m_bias = 9\<rparr>]]\<rparr>)"
  by (simp add: setInput_def setInput_body_def demo_net_def ns_demo_def at_def setInputAt_def)

theorem setInput_no_length_check_witness:
  "setInput ns_demo demo_net [40, 41, 42] =
     Throws OutOfRange (demo_net\<lparr>m_netInput := [40, 41, 42],
        m_layers :=
          [[\<lparr>m_input = 40, m_activation = 40, m_derivative = 1, m_bias = 0\<rparr>,
            \<lparr>m_input = 41, m_activation = 41, m_derivative = 1, m_bias = 0\<rparr>],
           [\<lparr>m_input = 5, m_activation = 5, m_derivative = 2, m_bias = 7\<rparr>,
            \<lparr>m_input = 11, m_activation = 11, m_derivative = 3, m_bias = 8\<rparr>],
           [\<lparr>m_input = 91, m_activation = 91, m_derivative = 2, m_bias = 9\<rparr>]]\<rparr>) \<and>
   setInput ns_demo demo_net [] = Returns (demo_net\<lparr>m_netInput := []\<rparr>)"
proof -
  have h: "m_layers demo_net =
      [\<lparr>m_input = 1, m_activation = 1, m_derivative = 1, m_bias = 0\<rparr>,
       \<lparr>m_input = 2, m_activation = 2, m_derivative = 1, m_bias = 0\<rparr>]
      # [[\<lparr>m_input = 5, m_activation = 5, m_derivative = 2, m_bias = 7\<rparr>,
          \<lparr>m_input = 11, m_activation = 11, m_derivative = 3, m_bias = 8\<rparr>],
         [\<lparr>m_input = 91, m_activation = 91, m_derivative = 2, m_bias = 9\<rparr>]]"
    by (simp add: demo_net_def)
  show ?thesis
    using setInput_no_length_check [OF h, of "[40, 41, 42]" ns_demo]
      setInput_no_length_check [OF h, of "[]" ns_demo]
    by (simp add: getSize_def ns_demo_def demo_net_def numeral_2_eq_2)
qed

subsection \<open>C7: the constructor and malformed sequences of sizes\<close>

text \<open>
  Claim C7, as amended. The constructor does not validate the sequence of layer sizes.
  For every sequence of non-negative sizes, also one with fewer than two entries or with
  a size 0, it returns normally, with one layer per entry, of the given size, and one
  weight matrix per pair of adjacent entries (none when there are fewer than two
  entries).
\<close>

theorem Network_no_validation:
  assumes "list_all (\<lambda>n. 0 \<le> n) layerSizes"
  shows "\<exists>s k'. Network n0 lr rnd k layerSizes = Returns (s, k') \<and>
           map getSize (m_layers s) = map nat layerSizes \<and>
           length (m_weightMatrices s) = length layerSizes - 1"
proof -
  let ?t = "length layerSizes - 1"
  let ?s = "fst (ctor_state n0 lr rnd k layerSizes ?t)"
  have ret: "Network n0 lr rnd k layerSizes = Returns (?s, rng_before k layerSizes ?t)"
    by (simp add: Network_closed_form ctor_state_def)
  have "map getSize (m_layers ?s) = map nat layerSizes"
    by (rule nth_equalityI)
       (simp_all add: ctor_state_def getSize_def ctor_layer_def Layer_def)
  moreover have "length (m_weightMatrices ?s) = ?t"
    by (simp add: ctor_state_def)
  ultimately show ?thesis using ret by blast
qed

text \<open>
  The claim as stated fails for the sequence \<open>[3]\<close>, which has fewer than two entries:
  the constructor returns a network of one layer and no weight matrix.
\<close>

theorem Network_single_layer:
  "Network neuron0 1 int 0 [3] =
     Returns (\<lparr>m_layerSizes = [3], m_numLayers = 1,
               m_layers = [[neuron0, neuron0, neuron0]], m_weightMatrices = [],
               m_netInput = [], m_targetOutput = [], m_errors = [], m_LEARNINGRATE = 1\<rparr>, 0)"
  by (simp add: Network_closed_form ctor_state_def ctor_layer_def Layer_def numeral_3_eq_3)

theorem Network_no_validation_witness:
  "list_all (\<lambda>n. 0 \<le> n) [2, 0, 1 :: int] \<and>
   (\<exists>s k'. Network neuron0 1 int 0 [2, 0, 1] = Returns (s, k') \<and>
           map getSize (m_layers s) = [2, 0, 1] \<and> length (m_weightMatrices s) = 2)"
proof -
  have h: "list_all (\<lambda>n. 0 \<le> n) [2, 0, 1 :: int]" by simp
  from Network_no_validation [OF h, of neuron0 1 int 0] show ?thesis
    by (simp add: numeral_2_eq_2)
qed

subsection \<open>C8: a network without hidden layer\<close>

text \<open>
  Claim C8. On a well-formed network of two layers with a target of the output layer's
  length stored, one step (\<^verbatim>\<open>feedForward\<close>, emptying of the error list,
  \<^verbatim>\<open>backPropagate\<close>, \<^verbatim>\<open>update\<close>) runs to its end. \<^verbatim>\<open>feedForward\<close> sets the input of
  output neuron \<open>j\<close> to row \<open>j\<close> of the weight matrix times the activations of layer 0.
  The loop of \<^verbatim>\<open>backPropagate\<close> over the hidden layers has no iteration, and the error
  list it leaves is the one vector of the output layer. \<^verbatim>\<open>update\<close> applies the delta
  rule with that vector to every entry of the single weight matrix and to every bias of
  the output layer.
\<close>

theorem two_layer_step:
  assumes wf: "well_formed net" and two: "length (m_layers net) = 2"
    and tgt: "length (m_targetOutput net) = getSize (m_layers net ! 1)"
  shows "\<exists>s1 s2 s3.
           feedForward ns net = Returns s1 \<and>
           m_layers s1 = [m_layers net ! 0,
             fed_layer ns (m_weightMatrices net ! 0) (m_layers net ! 0) (m_layers net ! 1)] \<and>
           backPropagate (s1\<lparr>m_errors := []\<rparr>) = Returns s2 \<and>
           rev [1..<m_numLayers s1 - 1] = [] \<and>
           m_errors s2 = [output_error s1] \<and>
           update s2 = Returns s3 \<and>
           length (m_weightMatrices s3) = 1 \<and>
           (\<forall>j i. j < getSize (m_layers net ! 1) \<and> i < getSize (m_layers net ! 0) \<longrightarrow>
              m_data (m_weightMatrices s3 ! 0) ! j ! i =
                m_data (m_weightMatrices net ! 0) ! j ! i
                  - m_LEARNINGRATE net * getActivations (m_layers net ! 0) ! i * output_error s1 ! j) \<and>
           (\<forall>j < getSize (m_layers net ! 1).
              m_bias (m_layers s3 ! 1 ! j) =
                m_bias (m_layers s1 ! 1 ! j) - m_LEARNINGRATE net * output_error s1 ! j)"
proof -
  let ?W = "m_weightMatrices net ! 0"
  let ?fed = "fed_layer ns ?W (m_layers net ! 0) (m_layers net ! 1)"
  define s1 where "s1 = net\<lparr>m_layers := (m_layers net)[Suc 0 := ?fed]\<rparr>"
  define s2 where "s2 = s1\<lparr>m_errors := [output_error s1]\<rparr>"
  have nw: "length (m_weightMatrices net) = 1" "m_numLayers net = 2"
    using well_formed_lengths [OF wf] two by simp_all
  have shape: "matrix_shape ?W (getSize (m_layers net ! Suc 0)) (getSize (m_layers net ! 0))"
    using well_formed_shape [OF wf, of 0] nw by simp
  have body: "feedForward_body ns 0 net = Returns s1"
    using feedForward_body_closed [of 0 net ns] nw two shape by (simp add: s1_def)
  have ff: "feedForward ns net = Returns s1"
    using two body by (auto simp: feedForward_def)
  have layers1: "m_layers s1 = [m_layers net ! 0, ?fed]"
    using list_two [OF two] by (simp add: s1_def) (metis list_update_code(2,3) One_nat_def)
  have frame: "same_frame net s1"
    using two by (simp add: s1_def same_frame_def map_update length_fed_layer
        list_update_same_conv take_update_cancel)
  have wf1: "well_formed s1"
    by (rule same_frame_well_formed [OF frame wf])
  have f1: "m_weightMatrices s1 = m_weightMatrices net" "m_numLayers s1 = 2"
    "m_targetOutput s1 = m_targetOutput net" "m_LEARNINGRATE s1 = m_LEARNINGRATE net"
    "length (m_layers s1) = 2"
    using nw by (simp_all add: s1_def two)
  have last1: "last (m_layers s1) = ?fed"
    by (simp add: layers1)
  have tgt1: "length (m_targetOutput (s1\<lparr>m_errors := []\<rparr>)) =
      getSize (last (m_layers (s1\<lparr>m_errors := []\<rparr>)))"
    using tgt by (simp add: f1 last1 getSize_def length_fed_layer)
  have prod: "produced_errors s1 = [output_error s1]"
    by (simp add: produced_errors_def f1)
  have bp: "backPropagate (s1\<lparr>m_errors := []\<rparr>) = Returns s2"
    using backPropagate_closed_form [OF _ tgt1] wf1 by (simp add: prod s2_def)
  have none: "rev [1..<m_numLayers s1 - 1] = []"
    by (simp add: f1)
  have f2: "m_weightMatrices s2 = m_weightMatrices net" "m_layers s2 = m_layers s1"
    "m_LEARNINGRATE s2 = m_LEARNINGRATE net" "m_errors s2 = [output_error s1]"
    by (simp_all add: s2_def f1)
  have wf2: "well_formed s2"
    using wf1 by (simp add: s2_def)
  have len_out: "length (output_error s1) = length (m_layers net ! 1)"
    using tgt by (simp add: output_error_def last1 f1 getSize_def getActivations_def
        getDerivatives_def length_fed_layer)
  have sizes: "getSize (m_layers s1 ! 1) = getSize (m_layers net ! 1)"
    "getSize (m_layers s1 ! 0) = getSize (m_layers net ! 0)"
    "getActivations (m_layers s1 ! 0) = getActivations (m_layers net ! 0)"
    by (simp_all add: layers1 getSize_def length_fed_layer)
  have ef: "errors_fit s2"
    using len_out by (simp add: errors_fit_def f2 nw error_for_def sizes [unfolded One_nat_def] getSize_def layers1 length_fed_layer)
  have up: "update s2 = Returns (update_result s2)"
    by (rule update_closed_form [OF wf2 ef])
  have e0: "error_for s2 0 = output_error s1"
    by (simp add: error_for_def f2)
  have weights: "m_data (m_weightMatrices (update_result s2) ! 0) ! j ! i =
                m_data (m_weightMatrices net ! 0) ! j ! i
                  - m_LEARNINGRATE net * getActivations (m_layers net ! 0) ! i * output_error s1 ! j"
    if "j < getSize (m_layers net ! 1) \<and> i < getSize (m_layers net ! 0)" for j i
    using update_result_weight [OF wf2, of 0 j i] that nw
    by (simp add: f2 e0 sizes [unfolded One_nat_def])
  have biases: "m_bias (m_layers (update_result s2) ! 1 ! j) =
                m_bias (m_layers s1 ! 1 ! j) - m_LEARNINGRATE net * output_error s1 ! j"
    if "j < getSize (m_layers net ! 1)" for j
    using update_result_bias [of 0 s2 j] that nw
    by (simp add: f2 e0 sizes [unfolded One_nat_def])
  have "length (m_weightMatrices (update_result s2)) = 1"
    by (simp add: update_result_def f2 nw)
  with ff layers1 bp none f2(4) up weights biases show ?thesis
    by blast
qed

theorem two_layer_step_witness:
  "well_formed demo_two \<and> length (m_layers demo_two) = 2 \<and>
   length (m_targetOutput demo_two) = getSize (m_layers demo_two ! 1) \<and>
   (\<exists>s1 s2 s3.
      feedForward ns_demo demo_two = Returns s1 \<and>
      backPropagate (s1\<lparr>m_errors := []\<rparr>) = Returns s2 \<and>
      m_errors s2 = [[1]] \<and>
      update s2 = Returns s3 \<and>
      m_data (m_weightMatrices s3 ! 0) ! 0 ! 1 = - 2 \<and>
      m_bias (m_layers s3 ! 1 ! 0) = 5)"
proof -
  have h: "length (m_layers demo_two) = 2"
    "length (m_targetOutput demo_two) = getSize (m_layers demo_two ! 1)"
    by (simp_all add: demo_two_def getSize_def)
  from two_layer_step [OF well_formed_demo_two h, of ns_demo]
  obtain s1 s2 s3 where r:
    "feedForward ns_demo demo_two = Returns s1"
    "backPropagate (s1\<lparr>m_errors := []\<rparr>) = Returns s2"
    "m_errors s2 = [output_error s1]"
    "update s2 = Returns s3"
    "\<And>j i. j < getSize (m_layers demo_two ! 1) \<and> i < getSize (m_layers demo_two ! 0) \<Longrightarrow>
        m_data (m_weightMatrices s3 ! 0) ! j ! i =
          m_data (m_weightMatrices demo_two ! 0) ! j ! i
            - m_LEARNINGRATE demo_two * getActivations (m_layers demo_two ! 0) ! i * output_error s1 ! j"
    "\<And>j. j < getSize (m_layers demo_two ! 1) \<Longrightarrow>
        m_bias (m_layers s3 ! 1 ! j) =
          m_bias (m_layers s1 ! 1 ! j) - m_LEARNINGRATE demo_two * output_error s1 ! j"
    by blast
  from r(1) have s1: "s1 = demo_two\<lparr>m_layers :=
        [[\<lparr>m_input = 3, m_activation = 3, m_derivative = 1, m_bias = 0\<rparr>,
          \<lparr>m_input = 4, m_activation = 4, m_derivative = 1, m_bias = 0\<rparr>],
         [\<lparr>m_input = 11, m_activation = 11, m_derivative = 1, m_bias = 6\<rparr>]]\<rparr>"
    by (simp add: demo_two_forward)
  have out: "output_error s1 = [1]"
    by (simp add: s1 output_error_def demo_two_def getActivations_def getDerivatives_def)
  have d: "getSize (m_layers demo_two ! Suc 0) = Suc 0" "getSize (m_layers demo_two ! 0) = 2"
    "m_LEARNINGRATE demo_two = 1" "getActivations (m_layers demo_two ! 0) = [3, 4]"
    "m_data (m_weightMatrices demo_two ! 0) = [[1, 2]]"
    by (simp_all add: demo_two_def getSize_def getActivations_def)
  have b1: "m_bias (m_layers s1 ! Suc 0 ! 0) = 6"
    by (simp add: s1)
  have "m_data (m_weightMatrices s3 ! 0) ! 0 ! 1 = - 2"
    using r(5) [of 0 1] by (simp add: out d)
  moreover have "m_bias (m_layers s3 ! 1 ! 0) = 5"
    using r(6) [of 0] by (simp add: out d b1)
  ultimately show ?thesis
    using well_formed_demo_two h r(1,2,4) r(3) [unfolded out] by blast
qed

subsection \<open>C9: what update leaves unchanged\<close>

text \<open>
  Claim C9. \<^verbatim>\<open>update\<close> mutates only the entries of the weight matrices and the
  biases of the layers 1 to numLayers-1. In the object that a call of \<^verbatim>\<open>update\<close>
  leaves behind, whether the call returned or threw, the input, the activation and the
  derivative of every neuron of every layer are what they were before the call, and so
  is the input layer as a whole, with its biases. The error list, the target, the input
  vector, the learning rate, the number of layers and the number of rows and columns of
  every weight matrix are unchanged as well.
\<close>

theorem update_frame:
  "map getInputs (m_layers (final (update net))) = map getInputs (m_layers net) \<and>
   map getActivations (m_layers (final (update net))) = map getActivations (m_layers net) \<and>
   map getDerivatives (m_layers (final (update net))) = map getDerivatives (m_layers net) \<and>
   take 1 (m_layers (final (update net))) = take 1 (m_layers net) \<and>
   map m_rows (m_weightMatrices (final (update net))) = map m_rows (m_weightMatrices net) \<and>
   map m_cols (m_weightMatrices (final (update net))) = map m_cols (m_weightMatrices net) \<and>
   m_errors (final (update net)) = m_errors net \<and>
   m_targetOutput (final (update net)) = m_targetOutput net \<and>
   m_netInput (final (update net)) = m_netInput net \<and>
   m_LEARNINGRATE (final (update net)) = m_LEARNINGRATE net \<and>
   m_numLayers (final (update net)) = m_numLayers net \<and>
   m_layerSizes (final (update net)) = m_layerSizes net"
  using update_unchanged [of net] by (simp add: unchanged_by_update_def)

subsection \<open>C10: backPropagate appends to the error list\<close>




end
